theory Spec2Isabelle
  imports Main "HOL-Library.Multiset"
begin

section \<open>Data model\<close>

text \<open>
  The backend is a set of HTTP handlers over a relational store (drizzle on MySQL).
  Identifiers are strings (\<open>varchar(255)\<close> primary keys), timestamps are JavaScript
  \<open>Date\<close> values (milliseconds since the epoch), integer columns are unbounded
  integers.  A table is the list of its rows in storage order.
\<close>

type_synonym ident = string
type_synonym timestamp = int

text \<open>JSON values, for the \<open>json\<close> column of a question and for response bodies.\<close>

datatype json =
    JNull
  | JBool bool
  | JNum int
  | JStr string
  | JDate timestamp
  | JArr "json list"
  | JObj "(string \<times> json) list"

record user_row =
  usr_id :: ident
  usr_username :: string
  usr_password_hash :: string

record user_profile =
  p_id :: ident
  p_userId :: ident
  p_createdAt :: timestamp
  p_updatedAt :: timestamp
  p_totalQuizzesTaken :: int
  p_highestScore :: int

record question_set =
  qs_id :: ident
  qs_name :: string
  qs_level :: int
  qs_description :: "string option"
  qs_createdAt :: timestamp
  qs_updatedAt :: timestamp

record question =
  q_id :: ident
  q_questionSetId :: ident
  q_type :: string
  q_content :: string
  q_options :: json
  q_correctAnswer :: string
  q_createdAt :: timestamp

record quiz_attempt =
  a_id :: ident
  a_userId :: ident
  a_questionSetId :: ident
  a_score :: int
  a_totalQuestions :: int
  a_startedAt :: timestamp
  a_completedAt :: "timestamp option"

record quiz_answer =
  ans_id :: ident
  ans_quizAttemptId :: ident
  ans_questionId :: ident
  ans_userAnswer :: string
  ans_isCorrect :: bool
  ans_answeredAt :: timestamp

record chat_session =
  cs_id :: ident
  cs_userId :: ident
  cs_createdAt :: timestamp

record chat_message =
  cm_id :: ident
  cm_chatSessionId :: ident
  cm_role :: string
  cm_content :: string
  cm_createdAt :: timestamp

record db =
  userTable :: "user_row list"
  userProfileTable :: "user_profile list"
  questionSetTable :: "question_set list"
  questionTable :: "question list"
  quizAttemptTable :: "quiz_attempt list"
  quizAnswerTable :: "quiz_answer list"
  chatSessionTable :: "chat_session list"
  chatMessageTable :: "chat_message list"

text \<open>
  A handler either throws an \<open>HTTPException\<close> with a status and a message, or lets a
  store error escape (the application's \<open>onError\<close> turns that into a 500).
\<close>

datatype error =
    HTTPException nat string
  | StoreError

section \<open>Store primitives\<close>

text \<open>
  \<open>insert(table).values(row)\<close>: every table has a primary key, so the insert throws when
  the key is already present; otherwise the row is appended.
\<close>

definition insert_row :: "('r \<Rightarrow> ident) \<Rightarrow> 'r \<Rightarrow> 'r list \<Rightarrow> 'r list option" where
  "insert_row key r tbl = (if key r \<in> set (map key tbl) then None else Some (tbl @ [r]))"

text \<open>\<open>update(table).set(f).where(P)\<close>: every row satisfying \<open>P\<close> is rewritten in place.\<close>

definition update_where :: "('r \<Rightarrow> bool) \<Rightarrow> ('r \<Rightarrow> 'r) \<Rightarrow> 'r list \<Rightarrow> 'r list" where
  "update_where P f tbl = map (\<lambda>r. if P r then f r else r) tbl"

text \<open>
  \<open>db.transaction(body)\<close>: the body runs on the current state; when it throws, the
  state is rolled back to what it was and the error is rethrown.
\<close>

definition transaction :: "(db \<Rightarrow> error + db) \<Rightarrow> db \<Rightarrow> (error + unit) \<times> db" where
  "transaction body s = (case body s of Inl e \<Rightarrow> (Inl e, s) | Inr s' \<Rightarrow> (Inr (), s'))"

text \<open>JavaScript \<open>x || 0\<close> on a number: \<open>0\<close> is falsy, so the default replaces it.\<close>

definition or_zero :: "int \<Rightarrow> int" where
  "or_zero x = (if x = 0 then 0 else x)"

section \<open>Quiz routes\<close>

record start_response =
  sr_attemptId :: ident
  sr_totalQuestions :: int

text \<open>
  \<open>POST /:questionSetId/start\<close>.  \<open>attemptId\<close> is the value \<open>randomUUIDv7()\<close> returns
  and \<open>now\<close> the value of \<open>new Date()\<close>.
\<close>

definition startAttempt ::
  "ident \<Rightarrow> ident \<Rightarrow> ident \<Rightarrow> timestamp \<Rightarrow> db \<Rightarrow> (error + start_response) \<times> db" where
  "startAttempt userId questionSetId attemptId now s =
    (case find (\<lambda>qs. qs_id qs = questionSetId) (questionSetTable s) of
       None \<Rightarrow> (Inl (HTTPException 404 ''Question set not found''), s)
     | Some questionSet \<Rightarrow>
        (let questions = filter (\<lambda>q. q_questionSetId q = questionSetId) (questionTable s);
             totalQuestions = 10
         in if length questions = 0
            then (Inl (HTTPException 404 ''No questions found for this question set''), s)
            else
              (let newAttempt = \<lparr> a_id = attemptId, a_userId = userId,
                                  a_questionSetId = questionSetId, a_score = 0,
                                  a_totalQuestions = totalQuestions, a_startedAt = now,
                                  a_completedAt = None \<rparr>
               in case insert_row a_id newAttempt (quizAttemptTable s) of
                    None \<Rightarrow> (Inl StoreError, s)
                  | Some tbl \<Rightarrow>
                      (Inr \<lparr> sr_attemptId = attemptId, sr_totalQuestions = totalQuestions \<rparr>,
                       s\<lparr> quizAttemptTable := tbl \<rparr>))))"


text \<open>
  The earlier version of the start handler that the repository keeps beside the current
  one.  It differs in one binding: \<open>const totalQuestions = questions.length\<close>.
\<close>

definition startAttempt_v0 ::
  "ident \<Rightarrow> ident \<Rightarrow> ident \<Rightarrow> timestamp \<Rightarrow> db \<Rightarrow> (error + start_response) \<times> db" where
  "startAttempt_v0 userId questionSetId attemptId now s =
    (case find (\<lambda>qs. qs_id qs = questionSetId) (questionSetTable s) of
       None \<Rightarrow> (Inl (HTTPException 404 ''Question set not found''), s)
     | Some questionSet \<Rightarrow>
        (let questions = filter (\<lambda>q. q_questionSetId q = questionSetId) (questionTable s);
             totalQuestions = int (length questions)
         in if totalQuestions = 0
            then (Inl (HTTPException 404 ''No questions found for this question set''), s)
            else
              (let newAttempt = \<lparr> a_id = attemptId, a_userId = userId,
                                  a_questionSetId = questionSetId, a_score = 0,
                                  a_totalQuestions = totalQuestions, a_startedAt = now,
                                  a_completedAt = None \<rparr>
               in case insert_row a_id newAttempt (quizAttemptTable s) of
                    None \<Rightarrow> (Inl StoreError, s)
                  | Some tbl \<Rightarrow>
                      (Inr \<lparr> sr_attemptId = attemptId, sr_totalQuestions = totalQuestions \<rparr>,
                       s\<lparr> quizAttemptTable := tbl \<rparr>))))"

text \<open>
  The query shared by the answer and complete handlers:
  \<open>select().from(quizAttemptTable).where(and(eq(id, attemptId), eq(userId, user.id))).limit(1)\<close>.
\<close>

definition selectAttempt :: "db \<Rightarrow> ident \<Rightarrow> ident \<Rightarrow> quiz_attempt option" where
  "selectAttempt s attemptId userId =
     find (\<lambda>a. a_id a = attemptId \<and> a_userId a = userId) (quizAttemptTable s)"

record answer_response =
  ar_wasCorrect :: bool
  ar_correctAnswer :: string

text \<open>
  \<open>POST /attempt/:attemptId/answer\<close>.  \<open>answerId\<close> is the value \<open>randomUUIDv7()\<close>
  returns and \<open>now\<close> the value of \<open>new Date()\<close>.
\<close>

definition submitAnswer ::
  "ident \<Rightarrow> ident \<Rightarrow> ident \<Rightarrow> string \<Rightarrow> ident \<Rightarrow> timestamp \<Rightarrow> db
     \<Rightarrow> (error + answer_response) \<times> db" where
  "submitAnswer userId attemptId questionId userAnswer answerId now s =
    (case selectAttempt s attemptId userId of
       None \<Rightarrow>
         (Inl (HTTPException 404 ''Quiz attempt not found or does not belong to user''), s)
     | Some quizAttempt \<Rightarrow>
        if a_completedAt quizAttempt \<noteq> None
        then (Inl (HTTPException 403 ''Quiz attempt has already been completed''), s)
        else
          (case find (\<lambda>q. q_id q = questionId) (questionTable s) of
             None \<Rightarrow> (Inl (HTTPException 404 ''Question not found''), s)
           | Some question \<Rightarrow>
              if q_questionSetId question \<noteq> a_questionSetId quizAttempt
              then (Inl (HTTPException 403 ''Question does not belong to this quiz set''), s)
              else
                (let isCorrect =
                       (if q_type question = ''single_selection'' \<or> q_type question = ''true_false''
                        then userAnswer = q_correctAnswer question
                        else False);
                     newAnswer = \<lparr> ans_id = answerId, ans_quizAttemptId = attemptId,
                                   ans_questionId = questionId, ans_userAnswer = userAnswer,
                                   ans_isCorrect = isCorrect, ans_answeredAt = now \<rparr>
                 in case transaction
                      (\<lambda>tx. case insert_row ans_id newAnswer (quizAnswerTable tx) of
                               None \<Rightarrow> Inl StoreError
                             | Some tbl \<Rightarrow>
                                (let tx1 = tx\<lparr> quizAnswerTable := tbl \<rparr>
                                 in if isCorrect
                                    then Inr (tx1\<lparr> quizAttemptTable :=
                                           update_where (\<lambda>a. a_id a = attemptId)
                                             (\<lambda>a. a\<lparr> a_score := or_zero (a_score quizAttempt) + 1 \<rparr>)
                                             (quizAttemptTable tx1) \<rparr>)
                                    else Inr tx1)) s of
                      (Inl e, s') \<Rightarrow> (Inl e, s')
                    | (Inr u, s') \<Rightarrow>
                        (Inr \<lparr> ar_wasCorrect = isCorrect,
                               ar_correctAnswer = q_correctAnswer question \<rparr>, s'))))"

record complete_response =
  cr_attemptId :: ident
  cr_score :: int
  cr_totalQuestions :: int
  cr_startedAt :: timestamp
  cr_completedAt :: timestamp

text \<open>
  \<open>POST /attempt/:attemptId/complete\<close>.  \<open>profileId\<close> is the value \<open>randomUUIDv7()\<close>
  returns in the branch that inserts a profile; \<open>now\<close> is the value of \<open>new Date()\<close>,
  which is also what \<open>defaultNow()\<close> gives the inserted profile's timestamps.
\<close>

definition completeAttempt ::
  "ident \<Rightarrow> ident \<Rightarrow> ident \<Rightarrow> timestamp \<Rightarrow> db \<Rightarrow> (error + complete_response) \<times> db" where
  "completeAttempt userId attemptId profileId now s =
    (case selectAttempt s attemptId userId of
       None \<Rightarrow>
         (Inl (HTTPException 404 ''Quiz attempt not found or does not belong to user''), s)
     | Some quizAttempt \<Rightarrow>
        if a_completedAt quizAttempt \<noteq> None
        then (Inl (HTTPException 403 ''Quiz attempt has already been completed''), s)
        else
          (case transaction
             (\<lambda>tx.
                (let completedAt = now;
                     tx1 = tx\<lparr> quizAttemptTable :=
                             update_where (\<lambda>a. a_id a = attemptId)
                               (\<lambda>a. a\<lparr> a_completedAt := Some completedAt \<rparr>)
                               (quizAttemptTable tx) \<rparr>
                 in case find (\<lambda>p. p_userId p = userId) (userProfileTable tx1) of
                      Some userProfile \<Rightarrow>
                        (let newTotalQuizzesTaken = or_zero (p_totalQuizzesTaken userProfile) + 1;
                             newHighestScore = max (or_zero (p_highestScore userProfile))
                                                   (or_zero (a_score quizAttempt))
                         in Inr (tx1\<lparr> userProfileTable :=
                                   update_where (\<lambda>p. p_userId p = userId)
                                     (\<lambda>p. p\<lparr> p_totalQuizzesTaken := newTotalQuizzesTaken,
                                              p_highestScore := newHighestScore \<rparr>)
                                     (userProfileTable tx1) \<rparr>))
                    | None \<Rightarrow>
                        (case insert_row p_id
                                \<lparr> p_id = profileId, p_userId = userId, p_createdAt = now,
                                  p_updatedAt = now, p_totalQuizzesTaken = 1,
                                  p_highestScore = or_zero (a_score quizAttempt) \<rparr>
                                (userProfileTable tx1) of
                           None \<Rightarrow> Inl StoreError
                         | Some tbl \<Rightarrow> Inr (tx1\<lparr> userProfileTable := tbl \<rparr>)))) s of
             (Inl e, s') \<Rightarrow> (Inl e, s')
           | (Inr u, s') \<Rightarrow>
               (Inr \<lparr> cr_attemptId = a_id quizAttempt, cr_score = a_score quizAttempt,
                      cr_totalQuestions = a_totalQuestions quizAttempt,
                      cr_startedAt = a_startedAt quizAttempt, cr_completedAt = now \<rparr>, s')))"

text \<open>
  \<open>GET /sets/:questionSetId\<close>.  The question projection lists its columns one by one;
  the response body is the JSON object \<open>c.json\<close> serialises.
\<close>

definition questionSetJson :: "question_set \<Rightarrow> json" where
  "questionSetJson qs =
     JObj [(''id'', JStr (qs_id qs)), (''name'', JStr (qs_name qs)),
           (''level'', JNum (qs_level qs)),
           (''description'', (case qs_description qs of None \<Rightarrow> JNull | Some d \<Rightarrow> JStr d)),
           (''createdAt'', JDate (qs_createdAt qs)), (''updatedAt'', JDate (qs_updatedAt qs))]"

definition questionProjection :: "question \<Rightarrow> json" where
  "questionProjection q =
     JObj [(''id'', JStr (q_id q)), (''questionSetId'', JStr (q_questionSetId q)),
           (''type'', JStr (q_type q)), (''content'', JStr (q_content q)),
           (''options'', q_options q), (''createdAt'', JDate (q_createdAt q))]"

definition getQuestionSetDetail :: "ident \<Rightarrow> db \<Rightarrow> error + json" where
  "getQuestionSetDetail questionSetId s =
    (case find (\<lambda>qs. qs_id qs = questionSetId) (questionSetTable s) of
       None \<Rightarrow> Inl (HTTPException 404 ''Question set not found'')
     | Some questionSet \<Rightarrow>
        (let questions = map questionProjection
                           (filter (\<lambda>q. q_questionSetId q = questionSetId) (questionTable s))
         in Inr (JObj [(''success'', JBool True),
                       (''message'', JStr ''Successfully fetched question set details''),
                       (''data'', JObj [(''questionSet'', questionSetJson questionSet),
                                        (''questions'', JArr questions)])])))"

text \<open>\<open>from(A).leftJoin(B, on)\<close>: every row of \<open>A\<close> with each matching row of \<open>B\<close>, or with
  nulls when none matches.\<close>

definition leftJoin :: "('a \<Rightarrow> 'b \<Rightarrow> bool) \<Rightarrow> 'a list \<Rightarrow> 'b list \<Rightarrow> ('a \<times> 'b option) list" where
  "leftJoin on xs ys =
     concat (map (\<lambda>x. case filter (on x) ys of
                          [] \<Rightarrow> [(x, None)]
                        | m # ms \<Rightarrow> map (\<lambda>y. (x, Some y)) (m # ms)) xs)"

definition attemptProjection :: "quiz_attempt \<times> question_set option \<Rightarrow> json" where
  "attemptProjection r =
     (case r of (a, qs) \<Rightarrow>
       JObj [(''id'', JStr (a_id a)), (''userId'', JStr (a_userId a)),
             (''questionSetId'', JStr (a_questionSetId a)),
             (''questionSetName'', (case qs of None \<Rightarrow> JNull | Some x \<Rightarrow> JStr (qs_name x))),
             (''score'', JNum (a_score a)), (''totalQuestions'', JNum (a_totalQuestions a)),
             (''startedAt'', JDate (a_startedAt a)),
             (''completedAt'', (case a_completedAt a of None \<Rightarrow> JNull | Some t \<Rightarrow> JDate t))])"

definition answerProjection :: "quiz_answer \<times> question option \<Rightarrow> json" where
  "answerProjection r =
     (case r of (ans, q) \<Rightarrow>
       JObj [(''questionId'', JStr (ans_questionId ans)),
             (''questionContent'', (case q of None \<Rightarrow> JNull | Some x \<Rightarrow> JStr (q_content x))),
             (''questionType'', (case q of None \<Rightarrow> JNull | Some x \<Rightarrow> JStr (q_type x))),
             (''questionOptions'', (case q of None \<Rightarrow> JNull | Some x \<Rightarrow> q_options x)),
             (''userAnswer'', JStr (ans_userAnswer ans)),
             (''isCorrect'', JBool (ans_isCorrect ans)),
             (''correctAnswer'', (case q of None \<Rightarrow> JNull | Some x \<Rightarrow> JStr (q_correctAnswer x))),
             (''answeredAt'', JDate (ans_answeredAt ans))])"

text \<open>
  \<open>GET /attempts/:attemptId\<close>.  The attempt query's result is bound without
  destructuring (\<open>const quizAttempt = await db.select(...)...limit(1)\<close>), so
  \<open>quizAttempt\<close> is the array of at most one row: \<open>!quizAttempt\<close> is false for every
  array, the 404 branch is never taken, and \<open>...quizAttempt\<close> spreads the array's
  index keys into the response object.
\<close>

definition getAttemptDetail :: "ident \<Rightarrow> ident \<Rightarrow> db \<Rightarrow> error + json" where
  "getAttemptDetail userId attemptId s =
    (let quizAttempt =
           take 1 (map attemptProjection
             (filter (\<lambda>r. a_id (fst r) = attemptId \<and> a_userId (fst r) = userId)
                (leftJoin (\<lambda>a qs. a_questionSetId a = qs_id qs)
                   (quizAttemptTable s) (questionSetTable s))));
         answers =
           map answerProjection
             (filter (\<lambda>r. ans_quizAttemptId (fst r) = attemptId)
                (leftJoin (\<lambda>ans q. ans_questionId ans = q_id q)
                   (quizAnswerTable s) (questionTable s)))
     in Inr (JObj [(''success'', JBool True),
                   (''message'', JStr ''Successfully fetched quiz attempt details''),
                   (''data'', JObj ((case quizAttempt of [] \<Rightarrow> [] | r # rs \<Rightarrow> [(''0'', r)])
                                    @ [(''answers'', JArr answers)]))]))"

text \<open>Reading a field of a JSON object (the first binding of the key).\<close>

definition jget :: "string \<Rightarrow> json \<Rightarrow> json option" where
  "jget k j = (case j of JObj kvs \<Rightarrow> map_of kvs k | _ \<Rightarrow> None)"

definition jkeys :: "json \<Rightarrow> string list" where
  "jkeys j = (case j of JObj kvs \<Rightarrow> map fst kvs | _ \<Rightarrow> [])"

definition isObject :: "json \<Rightarrow> bool" where
  "isObject j = (case j of JObj kvs \<Rightarrow> True | _ \<Rightarrow> False)"

section \<open>Auth routes\<close>

text \<open>
  The user table declares its columns under the keys \<open>id\<close>, \<open>username\<close> and
  \<open>password_hash\<close>, all three \<open>NOT NULL\<close> without a default, with \<open>id\<close> the primary key
  and \<open>username\<close> unique.  \<open>insert(userTable).values(o)\<close> reads the object \<open>o\<close> by
  these keys; for a key that \<open>o\<close> does not have it sends \<open>DEFAULT\<close>, which the store
  refuses for such a column, and the insert throws.
\<close>

definition insertUser :: "(string \<times> string) list \<Rightarrow> user_row list \<Rightarrow> user_row list option" where
  "insertUser vals tbl =
     (case map_of vals ''id'' of
        None \<Rightarrow> None
      | Some i \<Rightarrow>
         (case map_of vals ''username'' of
            None \<Rightarrow> None
          | Some u \<Rightarrow>
             (case map_of vals ''password_hash'' of
                None \<Rightarrow> None
              | Some h \<Rightarrow>
                 if u \<in> set (map usr_username tbl) then None
                 else insert_row usr_id
                        \<lparr> usr_id = i, usr_username = u, usr_password_hash = h \<rparr> tbl)))"

text \<open>
  \<open>POST /signup\<close>.  \<open>userId\<close> and \<open>profileId\<close> are the values \<open>generateId(15)\<close> returns,
  \<open>passwordHash\<close> the value of \<open>Bun.password.hash(password)\<close>, \<open>now\<close> what
  \<open>defaultNow()\<close> gives the profile's timestamps, and \<open>sessionOk\<close> tells whether
  \<open>lucia.createSession\<close> returns (the session table belongs to the identity provider).
  The handler passes the user insert the object \<open>{ id: userId, username, passwordHash }\<close>.
  The profile insert passes \<open>id\<close> and \<open>userId\<close>; the profile's counters take their
  column defaults \<open>0\<close>.
\<close>

definition signup ::
  "string \<Rightarrow> string \<Rightarrow> ident \<Rightarrow> ident \<Rightarrow> timestamp \<Rightarrow> bool \<Rightarrow> db \<Rightarrow> (error + nat \<times> string) \<times> db" where
  "signup username passwordHash userId profileId now sessionOk s =
    (case transaction
       (\<lambda>tx. case insertUser [(''id'', userId), (''username'', username),
                                (''passwordHash'', passwordHash)] (userTable tx) of
                None \<Rightarrow> Inl StoreError
              | Some users \<Rightarrow>
                 (let tx1 = tx\<lparr> userTable := users \<rparr>
                  in case insert_row p_id
                            \<lparr> p_id = profileId, p_userId = userId, p_createdAt = now,
                              p_updatedAt = now, p_totalQuizzesTaken = 0,
                              p_highestScore = 0 \<rparr> (userProfileTable tx1) of
                       None \<Rightarrow> Inl StoreError
                     | Some profiles \<Rightarrow> Inr (tx1\<lparr> userProfileTable := profiles \<rparr>))) s of
       (Inl e, s') \<Rightarrow> (Inl (HTTPException 500 ''Failed to create user''), s')
     | (Inr u, s') \<Rightarrow>
         if sessionOk then (Inr (201, ''User created''), s')
         else (Inl (HTTPException 500 ''Failed to create user''), s'))"

section \<open>Chat routes\<close>

record chat_msg =
  msg_role :: string
  msg_content :: string

record choice =
  ch_index :: int
  ch_message :: chat_msg
  ch_finish_reason :: string

record openai_completions =
  oc_id :: string
  oc_object :: string
  oc_created :: int
  oc_model :: string
  oc_choices :: "choice list"

text \<open>\<open>Array.prototype.join()\<close> with its default separator, on the elements' strings.\<close>

fun join_comma :: "string list \<Rightarrow> string" where
  "join_comma [] = []"
| "join_comma [x] = x"
| "join_comma (x # y # ys) = x @ '','' @ join_comma (y # ys)"

text \<open>\<open>String(o)\<close> of a plain object, which is what \<open>join\<close> applies to each
  \<open>item.message\<close>.\<close>

definition objectToString :: "chat_msg \<Rightarrow> string" where
  "objectToString m = ''[object Object]''"

text \<open>
  \<open>new Date(ms)\<close>: a time value beyond \<open>8.64e15\<close> milliseconds either side of the epoch
  gives an Invalid Date (\<open>None\<close>), which an insert cannot serialise: it throws.
\<close>

definition newDate :: "int \<Rightarrow> timestamp option" where
  "newDate ms = (if - 8640000000000000 \<le> ms \<and> ms \<le> 8640000000000000 then Some ms else None)"

text \<open>
  \<open>POST /completions\<close>.  \<open>serverReceivedTimestamp\<close> is the \<open>new Date()\<close> taken on
  entry; \<open>res\<close> is what \<open>requestOpenAiChatCompletionsApi([message])\<close> returns, \<open>None\<close>
  when it throws; \<open>userMsgId\<close> and \<open>llmMsgId\<close> are the two \<open>randomUUIDv7()\<close> values.
  The session and the assistant's message take \<open>new Date(res.created * 1000)\<close>; the
  first insert throws when that is an Invalid Date.  \<open>completions\<close> joins the
  \<open>message\<close> objects of the choices, not their \<open>content\<close>.  The \<open>catch\<close> covers the
  provider call and the transaction alike.
\<close>

definition postCompletion ::
  "ident \<Rightarrow> chat_msg \<Rightarrow> timestamp \<Rightarrow> openai_completions option \<Rightarrow> ident \<Rightarrow> ident \<Rightarrow> db
     \<Rightarrow> (error + chat_msg) \<times> db" where
  "postCompletion userId message serverReceivedTimestamp res userMsgId llmMsgId s =
    (case res of
       None \<Rightarrow>
         (Inl (HTTPException 500
                 ''An unexpected error occurred while processing your request.''), s)
     | Some r \<Rightarrow>
        (let created = newDate (oc_created r * 1000);
             completions = join_comma (map (\<lambda>item. objectToString (ch_message item)) (oc_choices r))
         in case transaction
              (\<lambda>tx. case created of
                       None \<Rightarrow> Inl StoreError
                     | Some createdAt \<Rightarrow>
                        (let chatSession = \<lparr> cs_id = oc_id r, cs_userId = userId,
                                             cs_createdAt = createdAt \<rparr>;
                             chatMessageFromUser =
                               \<lparr> cm_id = userMsgId, cm_chatSessionId = oc_id r,
                                 cm_role = msg_role message, cm_content = msg_content message,
                                 cm_createdAt = serverReceivedTimestamp \<rparr>;
                             chatMessageFromLlm =
                               \<lparr> cm_id = llmMsgId, cm_chatSessionId = oc_id r,
                                 cm_role = ''assistant'', cm_content = completions,
                                 cm_createdAt = createdAt \<rparr>
                         in case insert_row cs_id chatSession (chatSessionTable tx) of
                              None \<Rightarrow> Inl StoreError
                            | Some sessions \<Rightarrow>
                               (let tx1 = tx\<lparr> chatSessionTable := sessions \<rparr>
                                in case insert_row cm_id chatMessageFromUser (chatMessageTable tx1) of
                                     None \<Rightarrow> Inl StoreError
                                   | Some msgs1 \<Rightarrow>
                                      (let tx2 = tx1\<lparr> chatMessageTable := msgs1 \<rparr>
                                       in case insert_row cm_id chatMessageFromLlm
                                                 (chatMessageTable tx2) of
                                            None \<Rightarrow> Inl StoreError
                                          | Some msgs2 \<Rightarrow>
                                              Inr (tx2\<lparr> chatMessageTable := msgs2 \<rparr>))))) s of
              (Inl e, s') \<Rightarrow>
                (Inl (HTTPException 500
                        ''An unexpected error occurred while processing your request.''), s')
            | (Inr u, s') \<Rightarrow>
                (Inr \<lparr> msg_role = ''assistant'', msg_content = completions \<rparr>, s')))"

text \<open>\<open>GET /history\<close>: the response's \<open>data\<close> array.\<close>

definition historyItem :: "chat_message \<Rightarrow> json" where
  "historyItem item =
     JObj [(''id'', JStr (cm_chatSessionId item)), (''role'', JStr (cm_role item)),
           (''content'', JStr (cm_content item)), (''createdAt'', JDate (cm_createdAt item))]"

definition getHistory :: "ident \<Rightarrow> db \<Rightarrow> json list" where
  "getHistory userId s =
    (let sessionIds = filter (\<lambda>c. cs_userId c = userId) (chatSessionTable s)
     in if length sessionIds = 0 then []
        else
          (let uniqueSessionIds = map cs_id sessionIds;
               messages = sort_key cm_createdAt
                            (filter (\<lambda>m. cm_chatSessionId m \<in> set uniqueSessionIds)
                               (chatMessageTable s))
           in map historyItem messages))"

section \<open>Sequences of requests\<close>

text \<open>
  Requests are independent: each runs on the state the previous one left, whether that
  one succeeded or not.  A submission is \<open>(questionId, userAnswer, answerId, now)\<close>, a
  completion is \<open>(attemptId, profileId, now)\<close>.
\<close>

fun submitAll ::
  "ident \<Rightarrow> ident \<Rightarrow> (ident \<times> string \<times> ident \<times> timestamp) list \<Rightarrow> db
     \<Rightarrow> (error + answer_response) list \<times> db" where
  "submitAll userId attemptId [] s = ([], s)"
| "submitAll userId attemptId ((questionId, userAnswer, answerId, now) # reqs) s =
     (case submitAnswer userId attemptId questionId userAnswer answerId now s of
        (r, s1) \<Rightarrow>
          (case submitAll userId attemptId reqs s1 of
             (rs, s2) \<Rightarrow> (r # rs, s2)))"

fun completeAll ::
  "ident \<Rightarrow> (ident \<times> ident \<times> timestamp) list \<Rightarrow> db
     \<Rightarrow> (error + complete_response) list \<times> db" where
  "completeAll userId [] s = ([], s)"
| "completeAll userId ((attemptId, profileId, now) # reqs) s =
     (case completeAttempt userId attemptId profileId now s of
        (r, s1) \<Rightarrow>
          (case completeAll userId reqs s1 of
             (rs, s2) \<Rightarrow> (r # rs, s2)))"

definition succeeded :: "error + 'a \<Rightarrow> bool" where
  "succeeded r = (case r of Inl e \<Rightarrow> False | Inr v \<Rightarrow> True)"

definition profileOf :: "db \<Rightarrow> ident \<Rightarrow> user_profile option" where
  "profileOf s userId = find (\<lambda>p. p_userId p = userId) (userProfileTable s)"

section \<open>A small store\<close>

text \<open>
  One user, one question set with a true/false and a single-selection question (the
  seed of the repository's quiz tests), and nothing else.
\<close>

definition ex_user :: user_row where
  "ex_user = \<lparr> usr_id = ''u1'', usr_username = ''quizuser'', usr_password_hash = ''h'' \<rparr>"

definition ex_set :: question_set where
  "ex_set = \<lparr> qs_id = ''set1'', qs_name = ''Math Basics'', qs_level = 0,
              qs_description = Some ''Basic arithmetic questions'',
              qs_createdAt = 0, qs_updatedAt = 0 \<rparr>"

definition ex_q1 :: question where
  "ex_q1 = \<lparr> q_id = ''q1'', q_questionSetId = ''set1'', q_type = ''true_false'',
             q_content = ''2 + 2 = 4?'', q_options = JNull, q_correctAnswer = ''true'',
             q_createdAt = 0 \<rparr>"

definition ex_q2 :: question where
  "ex_q2 = \<lparr> q_id = ''q2'', q_questionSetId = ''set1'', q_type = ''single_selection'',
             q_content = ''What is 10 / 2?'',
             q_options = JArr [JStr ''2'', JStr ''5'', JStr ''8'', JStr ''10''],
             q_correctAnswer = ''5'', q_createdAt = 0 \<rparr>"

definition ex_db :: db where
  "ex_db = \<lparr> userTable = [ex_user], userProfileTable = [], questionSetTable = [ex_set],
             questionTable = [ex_q1, ex_q2], quizAttemptTable = [], quizAnswerTable = [],
             chatSessionTable = [], chatMessageTable = [] \<rparr>"

text \<open>The same store after the user has started two attempts on the set.\<close>

definition ex_attempt :: "ident \<Rightarrow> int \<Rightarrow> quiz_attempt" where
  "ex_attempt i sc = \<lparr> a_id = i, a_userId = ''u1'', a_questionSetId = ''set1'', a_score = sc,
                       a_totalQuestions = 10, a_startedAt = 1, a_completedAt = None \<rparr>"

definition ex_db1 :: db where
  "ex_db1 = ex_db\<lparr> quizAttemptTable := [ex_attempt ''a1'' 0, ex_attempt ''a2'' 2] \<rparr>"

text \<open>
  A store with an in-progress attempt \<open>a1\<close> and a completed attempt \<open>a3\<close> of user
  \<open>u1\<close>, an attempt \<open>b1\<close> of another user, and a question \<open>q3\<close> of another set.
\<close>

definition ex_db2 :: db where
  "ex_db2 = ex_db\<lparr>
     quizAttemptTable :=
       [ex_attempt ''a1'' 0, (ex_attempt ''a3'' 1)\<lparr> a_completedAt := Some 9 \<rparr>,
        (ex_attempt ''b1'' 0)\<lparr> a_userId := ''u2'' \<rparr>],
     questionTable := [ex_q1, ex_q2, ex_q1\<lparr> q_id := ''q3'', q_questionSetId := ''set2'' \<rparr>] \<rparr>"

text \<open>The scores of the caller's attempts with the given ids, in the order given.\<close>

definition attemptScores :: "db \<Rightarrow> ident \<Rightarrow> ident list \<Rightarrow> int list" where
  "attemptScores s userId attemptIds =
     map (\<lambda>i. case selectAttempt s i userId of None \<Rightarrow> 0 | Some a \<Rightarrow> a_score a) attemptIds"

text \<open>The store \<open>ex_db1\<close> with a profile of another user, whose id is \<open>p9\<close>.\<close>

definition ex_db3 :: db where
  "ex_db3 = ex_db1\<lparr> userProfileTable :=
     [\<lparr> p_id = ''p9'', p_userId = ''u2'', p_createdAt = 0, p_updatedAt = 0,
        p_totalQuizzesTaken = 3, p_highestScore = 7 \<rparr>] \<rparr>"

text \<open>The store \<open>ex_db1\<close> after one correct answer to \<open>q1\<close> in attempt \<open>a1\<close>.\<close>

definition ex_db5 :: db where
  "ex_db5 = ex_db\<lparr>
     quizAttemptTable := [ex_attempt ''a1'' 1, ex_attempt ''a2'' 2],
     quizAnswerTable :=
       [\<lparr> ans_id = ''x1'', ans_quizAttemptId = ''a1'', ans_questionId = ''q1'',
          ans_userAnswer = ''true'', ans_isCorrect = True, ans_answeredAt = 7 \<rparr>] \<rparr>"

text \<open>
  A provider response with one choice (the mock of the repository's chat test), and a
  store with one chat session of two messages.
\<close>

definition ex_res :: openai_completions where
  "ex_res = \<lparr> oc_id = ''llm-session-1'', oc_object = ''chat.completion'',
              oc_created = 1700000000, oc_model = ''m'',
              oc_choices = [\<lparr> ch_index = 0,
                               ch_message = \<lparr> msg_role = ''assistant'',
                                              msg_content = ''This is the LLM response.'' \<rparr>,
                               ch_finish_reason = ''stop'' \<rparr>] \<rparr>"

definition ex_db6 :: db where
  "ex_db6 = ex_db\<lparr>
     chatSessionTable :=
       [\<lparr> cs_id = ''c1'', cs_userId = ''u1'', cs_createdAt = 10 \<rparr>,
        \<lparr> cs_id = ''c2'', cs_userId = ''u2'', cs_createdAt = 11 \<rparr>],
     chatMessageTable :=
       [\<lparr> cm_id = ''m2'', cm_chatSessionId = ''c1'', cm_role = ''assistant'',
          cm_content = ''Hi there'', cm_createdAt = 10 \<rparr>,
        \<lparr> cm_id = ''m3'', cm_chatSessionId = ''c2'', cm_role = ''user'',
          cm_content = ''Other'', cm_createdAt = 8 \<rparr>,
        \<lparr> cm_id = ''m1'', cm_chatSessionId = ''c1'', cm_role = ''user'',
          cm_content = ''Hello'', cm_createdAt = 9 \<rparr>] \<rparr>"

section \<open>Starting an attempt\<close>

text \<open>
  C1.  The set \<open>set1\<close> of the small store has two questions.  Starting an attempt on it
  succeeds and inserts one attempt row with score 0 and no completion time, but the row's
  \<open>totalQuestions\<close> and the response's \<open>totalQuestions\<close> are the literal 10 of the
  handler, not the number of questions of the set.
\<close>

theorem startAttempt_totalQuestions_literal:
  "length (filter (\<lambda>q. q_questionSetId q = ''set1'') (questionTable ex_db)) = 2 \<and>
   startAttempt ''u1'' ''set1'' ''att1'' 5 ex_db =
     (Inr \<lparr> sr_attemptId = ''att1'', sr_totalQuestions = 10 \<rparr>,
      ex_db\<lparr> quizAttemptTable :=
        [\<lparr> a_id = ''att1'', a_userId = ''u1'', a_questionSetId = ''set1'', a_score = 0,
           a_totalQuestions = 10, a_startedAt = 5, a_completedAt = None \<rparr>] \<rparr>)"
  by (simp add: startAttempt_def insert_row_def ex_db_def ex_set_def ex_q1_def ex_q2_def)

text \<open>
  In general, on an existing set with at least one question and with a fresh attempt id,
  the current handler appends one attempt row with score 0, no completion time and
  \<open>totalQuestions = 10\<close>, and returns the id and 10; the earlier version does the same
  with the number of questions of the set in place of 10.
\<close>

lemma startAttempt_ok:
  assumes "find (\<lambda>qs. qs_id qs = questionSetId) (questionSetTable s) = Some questionSet"
    and "filter (\<lambda>q. q_questionSetId q = questionSetId) (questionTable s) \<noteq> []"
    and "attemptId \<notin> set (map a_id (quizAttemptTable s))"
  shows "startAttempt userId questionSetId attemptId now s =
     (Inr \<lparr> sr_attemptId = attemptId, sr_totalQuestions = 10 \<rparr>,
      s\<lparr> quizAttemptTable := quizAttemptTable s @
          [\<lparr> a_id = attemptId, a_userId = userId, a_questionSetId = questionSetId,
             a_score = 0, a_totalQuestions = 10, a_startedAt = now,
             a_completedAt = None \<rparr>] \<rparr>)"
  using assms by (simp add: startAttempt_def insert_row_def Let_def)

lemma startAttempt_v0_ok:
  assumes "find (\<lambda>qs. qs_id qs = questionSetId) (questionSetTable s) = Some questionSet"
    and "filter (\<lambda>q. q_questionSetId q = questionSetId) (questionTable s) \<noteq> []"
    and "attemptId \<notin> set (map a_id (quizAttemptTable s))"
  shows "startAttempt_v0 userId questionSetId attemptId now s =
     (Inr \<lparr> sr_attemptId = attemptId,
             sr_totalQuestions =
               int (length (filter (\<lambda>q. q_questionSetId q = questionSetId) (questionTable s))) \<rparr>,
      s\<lparr> quizAttemptTable := quizAttemptTable s @
          [\<lparr> a_id = attemptId, a_userId = userId, a_questionSetId = questionSetId,
             a_score = 0,
             a_totalQuestions =
               int (length (filter (\<lambda>q. q_questionSetId q = questionSetId) (questionTable s))),
             a_startedAt = now, a_completedAt = None \<rparr>] \<rparr>)"
  using assms by (simp add: startAttempt_v0_def insert_row_def Let_def)

section \<open>Store lemmas\<close>

lemma or_zero_id: "or_zero x = x"
  by (simp add: or_zero_def)

lemma find_update_where:
  assumes "\<And>r. P (f r) = P r"
  shows "find P (update_where Q f xs) = map_option (\<lambda>r. if Q r then f r else r) (find P xs)"
  using assms by (induction xs) (auto simp: update_where_def)

lemma find_Some_holds: "find P xs = Some x \<Longrightarrow> P x \<and> x \<in> set xs"
  by (induction xs) (auto split: if_splits)

lemma selectAttempt_SomeD:
  "selectAttempt s aid u = Some a \<Longrightarrow> a_id a = aid \<and> a_userId a = u \<and> a \<in> set (quizAttemptTable s)"
  unfolding selectAttempt_def by (drule find_Some_holds) simp

lemma submitAnswer_ok:
  assumes "selectAttempt s aid u = Some a" and "a_completedAt a = None"
    and "find (\<lambda>q. q_id q = qid) (questionTable s) = Some q"
    and "q_questionSetId q = a_questionSetId a"
    and "answerId \<notin> set (map ans_id (quizAnswerTable s))"
  shows "submitAnswer u aid qid ua answerId now s =
    (let wc = ((q_type q = ''single_selection'' \<or> q_type q = ''true_false'') \<and> ua = q_correctAnswer q);
         s1 = s\<lparr> quizAnswerTable := quizAnswerTable s @
                 [\<lparr> ans_id = answerId, ans_quizAttemptId = aid, ans_questionId = qid,
                    ans_userAnswer = ua, ans_isCorrect = wc, ans_answeredAt = now \<rparr>] \<rparr>
     in (Inr \<lparr> ar_wasCorrect = wc, ar_correctAnswer = q_correctAnswer q \<rparr>,
         if wc then s1\<lparr> quizAttemptTable :=
                      update_where (\<lambda>x. a_id x = aid) (\<lambda>x. x\<lparr> a_score := a_score a + 1 \<rparr>)
                        (quizAttemptTable s) \<rparr>
         else s1))"
  using assms
  by (simp add: submitAnswer_def transaction_def insert_row_def or_zero_id Let_def)

lemma submitAnswer_err_unchanged:
  "submitAnswer u aid qid ua answerId now s = (Inl e, s') \<Longrightarrow> s' = s"
  by (auto simp: submitAnswer_def transaction_def Let_def
           split: option.splits if_splits sum.splits prod.splits)


lemma ex_db1_simps:
  "quizAttemptTable ex_db1 = [ex_attempt ''a1'' 0, ex_attempt ''a2'' 2]"
  "questionTable ex_db1 = [ex_q1, ex_q2]"
  "questionSetTable ex_db1 = [ex_set]"
  "quizAnswerTable ex_db1 = []"
  "userProfileTable ex_db1 = []"
  "userTable ex_db1 = [ex_user]"
  "chatSessionTable ex_db1 = []"
  "chatMessageTable ex_db1 = []"
  by (simp_all add: ex_db1_def ex_db_def)

lemma ex_attempt_simps:
  "a_id (ex_attempt i sc) = i" "a_userId (ex_attempt i sc) = ''u1''"
  "a_questionSetId (ex_attempt i sc) = ''set1''" "a_score (ex_attempt i sc) = sc"
  "a_totalQuestions (ex_attempt i sc) = 10" "a_startedAt (ex_attempt i sc) = 1"
  "a_completedAt (ex_attempt i sc) = None"
  by (simp_all add: ex_attempt_def)

lemma ex_attempt_score_update: "(ex_attempt i sc)\<lparr> a_score := sc' \<rparr> = ex_attempt i sc'"
  by (simp add: ex_attempt_def)

lemma ex_q_simps:
  "q_id ex_q1 = ''q1''" "q_questionSetId ex_q1 = ''set1''" "q_type ex_q1 = ''true_false''"
  "q_correctAnswer ex_q1 = ''true''"
  "q_id ex_q2 = ''q2''" "q_questionSetId ex_q2 = ''set1''" "q_type ex_q2 = ''single_selection''"
  "q_correctAnswer ex_q2 = ''5''"
  by (simp_all add: ex_q1_def ex_q2_def)

section \<open>Submitting an answer\<close>

text \<open>
  C4.  A submission to an owned, in-progress attempt for a question of the attempt's set
  (with a fresh answer id) succeeds; \<open>wasCorrect\<close> is true exactly when the submitted
  string equals the question's \<open>correctAnswer\<close> and the question's type is
  \<open>single_selection\<close> or \<open>true_false\<close>; exactly one answer row is appended, carrying
  that flag; the attempt's score grows by one when the answer is correct and is unchanged
  otherwise.
\<close>

theorem submitAnswer_scoring:
  assumes "selectAttempt s attemptId userId = Some a" and "a_completedAt a = None"
    and "find (\<lambda>q. q_id q = questionId) (questionTable s) = Some q"
    and "q_questionSetId q = a_questionSetId a"
    and "answerId \<notin> set (map ans_id (quizAnswerTable s))"
  shows "\<exists>s'. let wasCorrect = (userAnswer = q_correctAnswer q \<and>
                     (q_type q = ''single_selection'' \<or> q_type q = ''true_false''))
              in submitAnswer userId attemptId questionId userAnswer answerId now s =
                   (Inr \<lparr> ar_wasCorrect = wasCorrect, ar_correctAnswer = q_correctAnswer q \<rparr>, s') \<and>
                 quizAnswerTable s' = quizAnswerTable s @
                   [\<lparr> ans_id = answerId, ans_quizAttemptId = attemptId,
                      ans_questionId = questionId, ans_userAnswer = userAnswer,
                      ans_isCorrect = wasCorrect, ans_answeredAt = now \<rparr>] \<and>
                 selectAttempt s' attemptId userId =
                   Some (a\<lparr> a_score := a_score a + (if wasCorrect then 1 else 0) \<rparr>) \<and>
                 quizAttemptTable s' =
                   (if wasCorrect
                    then update_where (\<lambda>x. a_id x = attemptId)
                           (\<lambda>x. x\<lparr> a_score := a_score a + 1 \<rparr>) (quizAttemptTable s)
                    else quizAttemptTable s)"
proof -
  have idu: "a_id a = attemptId" and sel: "find (\<lambda>a. a_id a = attemptId \<and> a_userId a = userId) (quizAttemptTable s) = Some a"
    using selectAttempt_SomeD[OF assms(1)] assms(1) by (simp_all add: selectAttempt_def)
  have upd: "find (\<lambda>a. a_id a = attemptId \<and> a_userId a = userId)
           (update_where (\<lambda>x. a_id x = attemptId) (\<lambda>x. x\<lparr> a_score := a_score a + 1 \<rparr>)
              (quizAttemptTable s)) = Some (a\<lparr> a_score := a_score a + 1 \<rparr>)"
    by (subst find_update_where) (simp_all add: sel idu)
  show ?thesis
    unfolding submitAnswer_ok[OF assms, of userAnswer now]
    by (auto simp: Let_def selectAttempt_def upd sel)
qed

theorem submitAnswer_scoring_witness:
  "selectAttempt ex_db1 ''a1'' ''u1'' = Some (ex_attempt ''a1'' 0) \<and>
   a_completedAt (ex_attempt ''a1'' 0) = None \<and>
   find (\<lambda>q. q_id q = ''q1'') (questionTable ex_db1) = Some ex_q1 \<and>
   q_questionSetId ex_q1 = a_questionSetId (ex_attempt ''a1'' 0) \<and>
   ''ans1'' \<notin> set (map ans_id (quizAnswerTable ex_db1)) \<and>
   (\<exists>s'. submitAnswer ''u1'' ''a1'' ''q1'' ''true'' ''ans1'' 7 ex_db1 =
            (Inr \<lparr> ar_wasCorrect = True, ar_correctAnswer = ''true'' \<rparr>, s') \<and>
          length (quizAnswerTable s') = 1 \<and>
          selectAttempt s' ''a1'' ''u1'' = Some (ex_attempt ''a1'' 1)) \<and>
   (\<exists>s'. submitAnswer ''u1'' ''a1'' ''q1'' ''True'' ''ans1'' 7 ex_db1 =
            (Inr \<lparr> ar_wasCorrect = False, ar_correctAnswer = ''true'' \<rparr>, s') \<and>
          length (quizAnswerTable s') = 1 \<and>
          selectAttempt s' ''a1'' ''u1'' = Some (ex_attempt ''a1'' 0))"
proof -
  have h1: "selectAttempt ex_db1 ''a1'' ''u1'' = Some (ex_attempt ''a1'' 0)"
    by (simp add: selectAttempt_def ex_db1_simps ex_attempt_simps)
  have h2: "a_completedAt (ex_attempt ''a1'' 0) = None"
    by (simp add: ex_attempt_simps)
  have h3: "find (\<lambda>q. q_id q = ''q1'') (questionTable ex_db1) = Some ex_q1"
    by (simp add: ex_db1_simps ex_q_simps)
  have h4: "q_questionSetId ex_q1 = a_questionSetId (ex_attempt ''a1'' 0)"
    by (simp add: ex_attempt_simps ex_q_simps)
  have h5: "''ans1'' \<notin> set (map ans_id (quizAnswerTable ex_db1))"
    by (simp add: ex_db1_simps)
  from submitAnswer_scoring[OF h1 h2 h3 h4 h5, of "''true''" 7]
  have c1: "\<exists>s'. submitAnswer ''u1'' ''a1'' ''q1'' ''true'' ''ans1'' 7 ex_db1 =
            (Inr \<lparr> ar_wasCorrect = True, ar_correctAnswer = ''true'' \<rparr>, s') \<and>
          length (quizAnswerTable s') = 1 \<and>
          selectAttempt s' ''a1'' ''u1'' = Some (ex_attempt ''a1'' 1)"
    by (auto simp: Let_def ex_q_simps ex_attempt_simps ex_db1_simps ex_attempt_score_update)
  from submitAnswer_scoring[OF h1 h2 h3 h4 h5, of "''True''" 7]
  have c2: "\<exists>s'. submitAnswer ''u1'' ''a1'' ''q1'' ''True'' ''ans1'' 7 ex_db1 =
            (Inr \<lparr> ar_wasCorrect = False, ar_correctAnswer = ''true'' \<rparr>, s') \<and>
          length (quizAnswerTable s') = 1 \<and>
          selectAttempt s' ''a1'' ''u1'' = Some (ex_attempt ''a1'' 0)"
    by (auto simp: Let_def ex_q_simps ex_attempt_simps ex_db1_simps ex_attempt_score_update)
  from h1 h2 h3 h4 h5 c1 c2 show ?thesis by blast
qed

section \<open>Rejected submissions\<close>

lemma selectAttempt_None_iff:
  "selectAttempt s attemptId userId = None \<longleftrightarrow>
     (\<forall>a\<in>set (quizAttemptTable s). a_id a = attemptId \<longrightarrow> a_userId a \<noteq> userId)"
  by (auto simp: selectAttempt_def find_None_iff)

lemma ex_db2_simps:
  "quizAttemptTable ex_db2 =
     [ex_attempt ''a1'' 0, (ex_attempt ''a3'' 1)\<lparr> a_completedAt := Some 9 \<rparr>,
      (ex_attempt ''b1'' 0)\<lparr> a_userId := ''u2'' \<rparr>]"
  "questionTable ex_db2 = [ex_q1, ex_q2, ex_q1\<lparr> q_id := ''q3'', q_questionSetId := ''set2'' \<rparr>]"
  "quizAnswerTable ex_db2 = []"
  "userProfileTable ex_db2 = []"
  by (simp_all add: ex_db2_def ex_db_def)

text \<open>
  C7.  The answer handler checks, in this order: the attempt is found among the caller's
  own (a missing attempt and another user's attempt give the same 404); the attempt is
  not completed (403, whatever the question); the question exists (404); the question
  belongs to the attempt's set (403).  The four failures are distinct, and every failure
  of the handler leaves the store as it was.
\<close>

theorem submitAnswer_precondition_order:
  "((\<forall>a\<in>set (quizAttemptTable s). a_id a = attemptId \<longrightarrow> a_userId a \<noteq> userId) \<longrightarrow>
      submitAnswer userId attemptId questionId userAnswer answerId now s =
        (Inl (HTTPException 404 ''Quiz attempt not found or does not belong to user''), s)) \<and>
   (\<forall>a. selectAttempt s attemptId userId = Some a \<and> a_completedAt a \<noteq> None \<longrightarrow>
      submitAnswer userId attemptId questionId userAnswer answerId now s =
        (Inl (HTTPException 403 ''Quiz attempt has already been completed''), s)) \<and>
   (\<forall>a. selectAttempt s attemptId userId = Some a \<and> a_completedAt a = None \<and>
        find (\<lambda>q. q_id q = questionId) (questionTable s) = None \<longrightarrow>
      submitAnswer userId attemptId questionId userAnswer answerId now s =
        (Inl (HTTPException 404 ''Question not found''), s)) \<and>
   (\<forall>a q. selectAttempt s attemptId userId = Some a \<and> a_completedAt a = None \<and>
        find (\<lambda>q. q_id q = questionId) (questionTable s) = Some q \<and>
        q_questionSetId q \<noteq> a_questionSetId a \<longrightarrow>
      submitAnswer userId attemptId questionId userAnswer answerId now s =
        (Inl (HTTPException 403 ''Question does not belong to this quiz set''), s)) \<and>
   distinct [HTTPException 404 ''Quiz attempt not found or does not belong to user'',
             HTTPException 403 ''Quiz attempt has already been completed'',
             HTTPException 404 ''Question not found'',
             HTTPException 403 ''Question does not belong to this quiz set''] \<and>
   (\<forall>e s'. submitAnswer userId attemptId questionId userAnswer answerId now s = (Inl e, s')
      \<longrightarrow> s' = s)"
proof -
  have c1: "(\<forall>a\<in>set (quizAttemptTable s). a_id a = attemptId \<longrightarrow> a_userId a \<noteq> userId) \<longrightarrow>
      submitAnswer userId attemptId questionId userAnswer answerId now s =
        (Inl (HTTPException 404 ''Quiz attempt not found or does not belong to user''), s)"
  proof
    assume "\<forall>a\<in>set (quizAttemptTable s). a_id a = attemptId \<longrightarrow> a_userId a \<noteq> userId"
    then have "selectAttempt s attemptId userId = None"
      by (simp add: selectAttempt_None_iff)
    then show "submitAnswer userId attemptId questionId userAnswer answerId now s =
        (Inl (HTTPException 404 ''Quiz attempt not found or does not belong to user''), s)"
      by (simp add: submitAnswer_def)
  qed
  have c2: "\<forall>a. selectAttempt s attemptId userId = Some a \<and> a_completedAt a \<noteq> None \<longrightarrow>
      submitAnswer userId attemptId questionId userAnswer answerId now s =
        (Inl (HTTPException 403 ''Quiz attempt has already been completed''), s)"
    by (auto simp: submitAnswer_def)
  have c3: "\<forall>a. selectAttempt s attemptId userId = Some a \<and> a_completedAt a = None \<and>
        find (\<lambda>q. q_id q = questionId) (questionTable s) = None \<longrightarrow>
      submitAnswer userId attemptId questionId userAnswer answerId now s =
        (Inl (HTTPException 404 ''Question not found''), s)"
    by (auto simp: submitAnswer_def)
  have c4: "\<forall>a q. selectAttempt s attemptId userId = Some a \<and> a_completedAt a = None \<and>
        find (\<lambda>q. q_id q = questionId) (questionTable s) = Some q \<and>
        q_questionSetId q \<noteq> a_questionSetId a \<longrightarrow>
      submitAnswer userId attemptId questionId userAnswer answerId now s =
        (Inl (HTTPException 403 ''Question does not belong to this quiz set''), s)"
    by (auto simp: submitAnswer_def)
  have c5: "distinct [HTTPException 404 ''Quiz attempt not found or does not belong to user'',
             HTTPException 403 ''Quiz attempt has already been completed'',
             HTTPException 404 ''Question not found'',
             HTTPException 403 ''Question does not belong to this quiz set'']"
    by simp
  have c6: "\<forall>e s'. submitAnswer userId attemptId questionId userAnswer answerId now s = (Inl e, s')
      \<longrightarrow> s' = s"
    using submitAnswer_err_unchanged by blast
  from c1 c2 c3 c4 c5 c6 show ?thesis by blast
qed

theorem submitAnswer_precondition_order_witness:
  "submitAnswer ''u1'' ''zz'' ''q1'' ''true'' ''ans1'' 7 ex_db2 =
     (Inl (HTTPException 404 ''Quiz attempt not found or does not belong to user''), ex_db2) \<and>
   submitAnswer ''u1'' ''b1'' ''q1'' ''true'' ''ans1'' 7 ex_db2 =
     (Inl (HTTPException 404 ''Quiz attempt not found or does not belong to user''), ex_db2) \<and>
   submitAnswer ''u1'' ''a3'' ''nope'' ''true'' ''ans1'' 7 ex_db2 =
     (Inl (HTTPException 403 ''Quiz attempt has already been completed''), ex_db2) \<and>
   submitAnswer ''u1'' ''a1'' ''nope'' ''true'' ''ans1'' 7 ex_db2 =
     (Inl (HTTPException 404 ''Question not found''), ex_db2) \<and>
   submitAnswer ''u1'' ''a1'' ''q3'' ''true'' ''ans1'' 7 ex_db2 =
     (Inl (HTTPException 403 ''Question does not belong to this quiz set''), ex_db2) \<and>
   quizAnswerTable ex_db2 = [] \<and>
   selectAttempt ex_db2 ''a1'' ''u1'' = Some (ex_attempt ''a1'' 0)"
proof -
  have sel_a1: "selectAttempt ex_db2 ''a1'' ''u1'' = Some (ex_attempt ''a1'' 0)"
    by (simp add: selectAttempt_def ex_db2_simps ex_attempt_simps)
  have sel_a3: "selectAttempt ex_db2 ''a3'' ''u1'' = Some ((ex_attempt ''a3'' 1)\<lparr> a_completedAt := Some 9 \<rparr>)"
    by (simp add: selectAttempt_def ex_db2_simps ex_attempt_simps)
  have w1: "submitAnswer ''u1'' ''zz'' ''q1'' ''true'' ''ans1'' 7 ex_db2 =
     (Inl (HTTPException 404 ''Quiz attempt not found or does not belong to user''), ex_db2)"
    using submitAnswer_precondition_order[of ex_db2 "''zz''" "''u1''" "''q1''" "''true''" "''ans1''" 7]
    by (simp add: ex_db2_simps ex_attempt_simps)
  have w2: "submitAnswer ''u1'' ''b1'' ''q1'' ''true'' ''ans1'' 7 ex_db2 =
     (Inl (HTTPException 404 ''Quiz attempt not found or does not belong to user''), ex_db2)"
    using submitAnswer_precondition_order[of ex_db2 "''b1''" "''u1''" "''q1''" "''true''" "''ans1''" 7]
    by (simp add: ex_db2_simps ex_attempt_simps)
  have w3: "submitAnswer ''u1'' ''a3'' ''nope'' ''true'' ''ans1'' 7 ex_db2 =
     (Inl (HTTPException 403 ''Quiz attempt has already been completed''), ex_db2)"
    using submitAnswer_precondition_order[of ex_db2 "''a3''" "''u1''" "''nope''" "''true''" "''ans1''" 7]
      sel_a3 by simp
  have w4: "submitAnswer ''u1'' ''a1'' ''nope'' ''true'' ''ans1'' 7 ex_db2 =
     (Inl (HTTPException 404 ''Question not found''), ex_db2)"
    using submitAnswer_precondition_order[of ex_db2 "''a1''" "''u1''" "''nope''" "''true''" "''ans1''" 7]
      sel_a1 by (simp add: ex_db2_simps ex_attempt_simps ex_q_simps)
  have w5: "submitAnswer ''u1'' ''a1'' ''q3'' ''true'' ''ans1'' 7 ex_db2 =
     (Inl (HTTPException 403 ''Question does not belong to this quiz set''), ex_db2)"
    using submitAnswer_precondition_order[of ex_db2 "''a1''" "''u1''" "''q3''" "''true''" "''ans1''" 7]
      sel_a1 by (simp add: ex_db2_simps ex_attempt_simps ex_q_simps)
  from w1 w2 w3 w4 w5 sel_a1 show ?thesis by (simp add: ex_db2_simps)
qed

section \<open>Completing an attempt\<close>

lemma completeAttempt_err_unchanged:
  "completeAttempt u aid pid now s = (Inl e, s') \<Longrightarrow> s' = s"
  by (auto simp: completeAttempt_def transaction_def Let_def
           split: option.splits if_splits sum.splits prod.splits)

lemma completeAttempt_present:
  assumes "selectAttempt s aid u = Some a" and "a_completedAt a = None"
    and "profileOf s u = Some p"
  shows "completeAttempt u aid pid now s =
    (Inr \<lparr> cr_attemptId = a_id a, cr_score = a_score a,
           cr_totalQuestions = a_totalQuestions a, cr_startedAt = a_startedAt a,
           cr_completedAt = now \<rparr>,
     s\<lparr> quizAttemptTable :=
          update_where (\<lambda>a. a_id a = aid) (\<lambda>a. a\<lparr> a_completedAt := Some now \<rparr>)
            (quizAttemptTable s),
        userProfileTable :=
          update_where (\<lambda>x. p_userId x = u)
            (\<lambda>x. x\<lparr> p_totalQuizzesTaken := p_totalQuizzesTaken p + 1,
                     p_highestScore := max (p_highestScore p) (a_score a) \<rparr>)
            (userProfileTable s) \<rparr>)"
  using assms
  by (simp add: completeAttempt_def transaction_def profileOf_def or_zero_id Let_def)

lemma completeAttempt_absent:
  assumes "selectAttempt s aid u = Some a" and "a_completedAt a = None"
    and "profileOf s u = None"
  shows "completeAttempt u aid pid now s =
    (if pid \<in> set (map p_id (userProfileTable s)) then (Inl StoreError, s)
     else
      (Inr \<lparr> cr_attemptId = a_id a, cr_score = a_score a,
             cr_totalQuestions = a_totalQuestions a, cr_startedAt = a_startedAt a,
             cr_completedAt = now \<rparr>,
       s\<lparr> quizAttemptTable :=
            update_where (\<lambda>a. a_id a = aid) (\<lambda>a. a\<lparr> a_completedAt := Some now \<rparr>)
              (quizAttemptTable s),
          userProfileTable := userProfileTable s @
            [\<lparr> p_id = pid, p_userId = u, p_createdAt = now, p_updatedAt = now,
               p_totalQuizzesTaken = 1, p_highestScore = a_score a \<rparr>] \<rparr>))"
  using assms
  by (simp add: completeAttempt_def transaction_def profileOf_def or_zero_id Let_def
        insert_row_def)

lemma selectAttempt_completed:
  assumes "selectAttempt s aid u = Some a"
  shows "selectAttempt
           (s\<lparr> quizAttemptTable :=
                update_where (\<lambda>a. a_id a = aid) (\<lambda>a. a\<lparr> a_completedAt := Some now \<rparr>)
                  (quizAttemptTable s), userProfileTable := t \<rparr>) aid u =
         Some (a\<lparr> a_completedAt := Some now \<rparr>)"
proof -
  have "a_id a = aid" using selectAttempt_SomeD[OF assms] by simp
  then show ?thesis
    using assms unfolding selectAttempt_def
    by (simp add: find_update_where)
qed

lemma selectAttempt_other:
  assumes "b \<noteq> aid"
  shows "selectAttempt
           (s\<lparr> quizAttemptTable :=
                update_where (\<lambda>a. a_id a = aid) (\<lambda>a. a\<lparr> a_completedAt := Some now \<rparr>)
                  (quizAttemptTable s), userProfileTable := t \<rparr>) b u =
         selectAttempt s b u"
proof -
  have "find (\<lambda>a. a_id a = b \<and> a_userId a = u)
          (update_where (\<lambda>a. a_id a = aid) (\<lambda>a. a\<lparr> a_completedAt := Some now \<rparr>) xs) =
        find (\<lambda>a. a_id a = b \<and> a_userId a = u) xs" for xs
    using assms by (induction xs) (auto simp: update_where_def)
  then show ?thesis by (simp add: selectAttempt_def)
qed

lemma profileOf_updated:
  assumes "profileOf s u = Some p" and "\<And>x. p_userId (f x) = p_userId x"
  shows "profileOf (s\<lparr> quizAttemptTable := t,
            userProfileTable := update_where (\<lambda>x. p_userId x = u) f (userProfileTable s) \<rparr>) u
         = Some (f p)"
proof -
  have "p_userId p = u"
    using assms(1) unfolding profileOf_def by (drule_tac find_Some_holds) simp
  then show ?thesis
    using assms unfolding profileOf_def by (simp add: find_update_where)
qed

lemma find_append_None:
  "find P xs = None \<Longrightarrow> find P (xs @ ys) = find P ys"
  by (induction xs) (auto split: if_splits)

lemma profileOf_appended:
  assumes "profileOf s u = None" and "p_userId r = u"
  shows "profileOf (s\<lparr> quizAttemptTable := t,
            userProfileTable := userProfileTable s @ [r] \<rparr>) u = Some r"
  using assms unfolding profileOf_def by (simp add: find_append_None)


text \<open>
  C5.  Completing an owned, in-progress attempt runs the \<open>completedAt\<close> write and the
  profile write in one transaction.  Either the transaction fails (the profile insert
  meets an existing profile id) and the store is exactly what it was, the attempt still
  in progress; or the attempt carries \<open>completedAt\<close>, the caller's profile is the
  created or updated one, and every further completion of that attempt fails with 403
  and leaves the store, hence the attempt and the profile, unchanged.
\<close>

theorem completeAttempt_atomic_once:
  assumes "selectAttempt s attemptId userId = Some a" and "a_completedAt a = None"
  shows "\<exists>r s'. completeAttempt userId attemptId profileId now s = (r, s') \<and>
     ((r = Inl StoreError \<and> s' = s \<and> profileOf s userId = None \<and>
         profileId \<in> set (map p_id (userProfileTable s))) \<or>
      (r = Inr \<lparr> cr_attemptId = attemptId, cr_score = a_score a,
                  cr_totalQuestions = a_totalQuestions a, cr_startedAt = a_startedAt a,
                  cr_completedAt = now \<rparr> \<and>
       \<not> (profileOf s userId = None \<and> profileId \<in> set (map p_id (userProfileTable s))) \<and>
       selectAttempt s' attemptId userId = Some (a\<lparr> a_completedAt := Some now \<rparr>) \<and>
       profileOf s' userId =
         Some (case profileOf s userId of
                 None \<Rightarrow> \<lparr> p_id = profileId, p_userId = userId, p_createdAt = now,
                           p_updatedAt = now, p_totalQuizzesTaken = 1,
                           p_highestScore = a_score a \<rparr>
               | Some p \<Rightarrow> p\<lparr> p_totalQuizzesTaken := p_totalQuizzesTaken p + 1,
                              p_highestScore := max (p_highestScore p) (a_score a) \<rparr>) \<and>
       (\<forall>profileId' now'.
          completeAttempt userId attemptId profileId' now' s' =
            (Inl (HTTPException 403 ''Quiz attempt has already been completed''), s'))))"
proof -
  have aid: "a_id a = attemptId" using selectAttempt_SomeD[OF assms(1)] by simp
  have again: "completeAttempt userId attemptId profileId' now' s' =
            (Inl (HTTPException 403 ''Quiz attempt has already been completed''), s')"
    if "selectAttempt s' attemptId userId = Some (a\<lparr> a_completedAt := Some now \<rparr>)"
    for s' profileId' now'
    using that by (simp add: completeAttempt_def)
  show ?thesis
  proof (cases "profileOf s userId")
    case None
    show ?thesis
    proof (cases "profileId \<in> set (map p_id (userProfileTable s))")
      case True
      then show ?thesis
        using completeAttempt_absent[OF assms None, of profileId now] None by simp
    next
      case False
      let ?r = "\<lparr> p_id = profileId, p_userId = userId, p_createdAt = now,
                  p_updatedAt = now, p_totalQuizzesTaken = 1, p_highestScore = a_score a \<rparr>"
      let ?s' = "s\<lparr> quizAttemptTable :=
            update_where (\<lambda>a. a_id a = attemptId) (\<lambda>a. a\<lparr> a_completedAt := Some now \<rparr>)
              (quizAttemptTable s),
          userProfileTable := userProfileTable s @ [?r] \<rparr>"
      have run: "completeAttempt userId attemptId profileId now s =
          (Inr \<lparr> cr_attemptId = attemptId, cr_score = a_score a,
                  cr_totalQuestions = a_totalQuestions a, cr_startedAt = a_startedAt a,
                  cr_completedAt = now \<rparr>, ?s')"
        using completeAttempt_absent[OF assms None, of profileId now] False aid by simp
      have sel: "selectAttempt ?s' attemptId userId = Some (a\<lparr> a_completedAt := Some now \<rparr>)"
        by (rule selectAttempt_completed[OF assms(1)])
      have prof: "profileOf ?s' userId = Some ?r"
        by (rule profileOf_appended[OF None]) simp
      show ?thesis
        using run sel prof again[OF sel] None False by simp
    qed
  next
    case (Some p)
    let ?f = "\<lambda>x. x\<lparr> p_totalQuizzesTaken := p_totalQuizzesTaken p + 1,
                     p_highestScore := max (p_highestScore p) (a_score a) \<rparr>"
    let ?s' = "s\<lparr> quizAttemptTable :=
          update_where (\<lambda>a. a_id a = attemptId) (\<lambda>a. a\<lparr> a_completedAt := Some now \<rparr>)
            (quizAttemptTable s),
        userProfileTable := update_where (\<lambda>x. p_userId x = userId) ?f (userProfileTable s) \<rparr>"
    have run: "completeAttempt userId attemptId profileId now s =
          (Inr \<lparr> cr_attemptId = attemptId, cr_score = a_score a,
                  cr_totalQuestions = a_totalQuestions a, cr_startedAt = a_startedAt a,
                  cr_completedAt = now \<rparr>, ?s')"
      using completeAttempt_present[OF assms Some, of profileId now] aid by simp
    have sel: "selectAttempt ?s' attemptId userId = Some (a\<lparr> a_completedAt := Some now \<rparr>)"
      by (rule selectAttempt_completed[OF assms(1)])
    have prof: "profileOf ?s' userId = Some (?f p)"
      by (rule profileOf_updated[OF Some]) simp
    show ?thesis
      using run sel prof again[OF sel] Some by simp
  qed
qed


lemma ex_db3_simps:
  "quizAttemptTable ex_db3 = [ex_attempt ''a1'' 0, ex_attempt ''a2'' 2]"
  "userProfileTable ex_db3 =
     [\<lparr> p_id = ''p9'', p_userId = ''u2'', p_createdAt = 0, p_updatedAt = 0,
        p_totalQuizzesTaken = 3, p_highestScore = 7 \<rparr>]"
  by (simp_all add: ex_db3_def ex_db1_def ex_db_def)

theorem completeAttempt_atomic_once_witness:
  "selectAttempt ex_db3 ''a2'' ''u1'' = Some (ex_attempt ''a2'' 2) \<and>
   a_completedAt (ex_attempt ''a2'' 2) = None \<and>
   completeAttempt ''u1'' ''a2'' ''p9'' 50 ex_db3 = (Inl StoreError, ex_db3) \<and>
   (\<exists>s'. completeAttempt ''u1'' ''a2'' ''p1'' 50 ex_db3 =
            (Inr \<lparr> cr_attemptId = ''a2'', cr_score = 2, cr_totalQuestions = 10,
                   cr_startedAt = 1, cr_completedAt = 50 \<rparr>, s') \<and>
          selectAttempt s' ''a2'' ''u1'' = Some ((ex_attempt ''a2'' 2)\<lparr> a_completedAt := Some 50 \<rparr>) \<and>
          profileOf s' ''u1'' =
            Some \<lparr> p_id = ''p1'', p_userId = ''u1'', p_createdAt = 50, p_updatedAt = 50,
                   p_totalQuizzesTaken = 1, p_highestScore = 2 \<rparr> \<and>
          completeAttempt ''u1'' ''a2'' ''p2'' 60 s' =
            (Inl (HTTPException 403 ''Quiz attempt has already been completed''), s'))"
proof -
  have h1: "selectAttempt ex_db3 ''a2'' ''u1'' = Some (ex_attempt ''a2'' 2)"
    by (simp add: selectAttempt_def ex_db3_simps ex_attempt_simps)
  have h2: "a_completedAt (ex_attempt ''a2'' 2) = None"
    by (simp add: ex_attempt_simps)
  have none: "profileOf ex_db3 ''u1'' = None"
    by (simp add: profileOf_def ex_db3_simps)
  have in9: "''p9'' \<in> set (map p_id (userProfileTable ex_db3))"
    by (simp add: ex_db3_simps)
  have out1: "''p1'' \<notin> set (map p_id (userProfileTable ex_db3))"
    by (simp add: ex_db3_simps)
  have w1: "completeAttempt ''u1'' ''a2'' ''p9'' 50 ex_db3 = (Inl StoreError, ex_db3)"
  proof -
    from completeAttempt_atomic_once[OF h1 h2, of "''p9''" 50]
    obtain r s' where run: "completeAttempt ''u1'' ''a2'' ''p9'' 50 ex_db3 = (r, s')"
      and alt: "(r = Inl StoreError \<and> s' = ex_db3) \<or>
                \<not> (profileOf ex_db3 ''u1'' = None \<and>
                   ''p9'' \<in> set (map p_id (userProfileTable ex_db3)))"
      by blast
    from alt none in9 have "r = Inl StoreError \<and> s' = ex_db3" by blast
    with run show ?thesis by simp
  qed
  have w2: "\<exists>s'. completeAttempt ''u1'' ''a2'' ''p1'' 50 ex_db3 =
            (Inr \<lparr> cr_attemptId = ''a2'', cr_score = 2, cr_totalQuestions = 10,
                   cr_startedAt = 1, cr_completedAt = 50 \<rparr>, s') \<and>
          selectAttempt s' ''a2'' ''u1'' = Some ((ex_attempt ''a2'' 2)\<lparr> a_completedAt := Some 50 \<rparr>) \<and>
          profileOf s' ''u1'' =
            Some \<lparr> p_id = ''p1'', p_userId = ''u1'', p_createdAt = 50, p_updatedAt = 50,
                   p_totalQuizzesTaken = 1, p_highestScore = 2 \<rparr> \<and>
          completeAttempt ''u1'' ''a2'' ''p2'' 60 s' =
            (Inl (HTTPException 403 ''Quiz attempt has already been completed''), s')"
  proof -
    from completeAttempt_atomic_once[OF h1 h2, of "''p1''" 50]
    obtain r s' where run: "completeAttempt ''u1'' ''a2'' ''p1'' 50 ex_db3 = (r, s')"
      and alt: "''p1'' \<in> set (map p_id (userProfileTable ex_db3)) \<or>
        (r = Inr \<lparr> cr_attemptId = ''a2'', cr_score = a_score (ex_attempt ''a2'' 2),
                  cr_totalQuestions = a_totalQuestions (ex_attempt ''a2'' 2),
                  cr_startedAt = a_startedAt (ex_attempt ''a2'' 2),
                  cr_completedAt = 50 \<rparr> \<and>
         selectAttempt s' ''a2'' ''u1'' = Some ((ex_attempt ''a2'' 2)\<lparr> a_completedAt := Some 50 \<rparr>) \<and>
         profileOf s' ''u1'' =
           Some (case profileOf ex_db3 ''u1'' of
                 None \<Rightarrow> \<lparr> p_id = ''p1'', p_userId = ''u1'', p_createdAt = 50,
                           p_updatedAt = 50, p_totalQuizzesTaken = 1,
                           p_highestScore = a_score (ex_attempt ''a2'' 2) \<rparr>
               | Some p \<Rightarrow> p\<lparr> p_totalQuizzesTaken := p_totalQuizzesTaken p + 1,
                              p_highestScore := max (p_highestScore p) (a_score (ex_attempt ''a2'' 2)) \<rparr>) \<and>
         completeAttempt ''u1'' ''a2'' ''p2'' 60 s' =
            (Inl (HTTPException 403 ''Quiz attempt has already been completed''), s'))"
      by blast
    from alt out1 have good:
       "r = Inr \<lparr> cr_attemptId = ''a2'', cr_score = 2, cr_totalQuestions = 10,
                  cr_startedAt = 1, cr_completedAt = 50 \<rparr> \<and>
         selectAttempt s' ''a2'' ''u1'' = Some ((ex_attempt ''a2'' 2)\<lparr> a_completedAt := Some 50 \<rparr>) \<and>
         profileOf s' ''u1'' =
           Some \<lparr> p_id = ''p1'', p_userId = ''u1'', p_createdAt = 50,
                           p_updatedAt = 50, p_totalQuizzesTaken = 1,
                           p_highestScore = 2 \<rparr> \<and>
         completeAttempt ''u1'' ''a2'' ''p2'' 60 s' =
            (Inl (HTTPException 403 ''Quiz attempt has already been completed''), s')"
      by (simp add: none ex_attempt_simps)
    with run show ?thesis by simp
  qed
  from h1 h2 w1 w2 show ?thesis by blast
qed

section \<open>Scores are never negative\<close>

lemma startAttempt_scores:
  assumes "\<forall>a\<in>set (quizAttemptTable s). 0 \<le> a_score a"
  shows "\<forall>a\<in>set (quizAttemptTable (snd (startAttempt u qsid aid now s))). 0 \<le> a_score a"
  using assms
  by (auto simp: startAttempt_def insert_row_def Let_def split: option.splits if_splits)

lemma submitAnswer_scores:
  assumes "\<forall>a\<in>set (quizAttemptTable s). 0 \<le> a_score a"
  shows "\<forall>a\<in>set (quizAttemptTable (snd (submitAnswer u aid qid ua ansid now s))). 0 \<le> a_score a"
proof (cases "selectAttempt s aid u")
  case None
  with assms show ?thesis by (simp add: submitAnswer_def)
next
  case (Some a)
  then have "0 \<le> a_score a" using assms selectAttempt_SomeD by blast
  with assms Some show ?thesis
    by (auto simp: submitAnswer_def transaction_def insert_row_def update_where_def
          or_zero_id Let_def split: option.splits if_splits)
qed

lemma completeAttempt_scores:
  assumes "\<forall>a\<in>set (quizAttemptTable s). 0 \<le> a_score a"
  shows "\<forall>a\<in>set (quizAttemptTable (snd (completeAttempt u aid pid now s))). 0 \<le> a_score a"
  using assms
  by (auto simp: completeAttempt_def transaction_def insert_row_def update_where_def
        Let_def split: option.splits if_splits)

section \<open>The profile after a series of completions\<close>

lemma attemptScores_other:
  assumes "aid \<notin> set bs"
  shows "attemptScores
           (s\<lparr> quizAttemptTable :=
                update_where (\<lambda>a. a_id a = aid) (\<lambda>a. a\<lparr> a_completedAt := Some now \<rparr>)
                  (quizAttemptTable s), userProfileTable := t \<rparr>) u bs =
         attemptScores s u bs"
  using assms by (induction bs) (auto simp: attemptScores_def selectAttempt_other)

lemma completeAll_present:
  assumes "profileOf s u = Some p" and "distinct (map fst cs)"
    and "\<forall>c\<in>set cs. \<exists>a. selectAttempt s (fst c) u = Some a \<and> a_completedAt a = None"
  shows "\<exists>rs s' p'. completeAll u cs s = (rs, s') \<and> list_all succeeded rs \<and>
           profileOf s' u = Some p' \<and>
           p_totalQuizzesTaken p' = p_totalQuizzesTaken p + int (length cs) \<and>
           p_highestScore p' = fold max (attemptScores s u (map fst cs)) (p_highestScore p)"
  using assms
proof (induction cs arbitrary: s p)
  case Nil
  then show ?case by (simp add: attemptScores_def)
next
  case (Cons c cs)
  obtain aid pid now where c: "c = (aid, pid, now)" by (cases c) auto
  from Cons.prems(3) c obtain a where
    sel: "selectAttempt s aid u = Some a" and open_a: "a_completedAt a = None"
    by auto
  let ?f = "\<lambda>x. x\<lparr> p_totalQuizzesTaken := p_totalQuizzesTaken p + 1,
                   p_highestScore := max (p_highestScore p) (a_score a) \<rparr>"
  let ?s1 = "s\<lparr> quizAttemptTable :=
          update_where (\<lambda>a. a_id a = aid) (\<lambda>a. a\<lparr> a_completedAt := Some now \<rparr>)
            (quizAttemptTable s),
        userProfileTable := update_where (\<lambda>x. p_userId x = u) ?f (userProfileTable s) \<rparr>"
  have run: "completeAttempt u aid pid now s =
      (Inr \<lparr> cr_attemptId = a_id a, cr_score = a_score a,
             cr_totalQuestions = a_totalQuestions a, cr_startedAt = a_startedAt a,
             cr_completedAt = now \<rparr>, ?s1)"
    by (rule completeAttempt_present[OF sel open_a Cons.prems(1)])
  have prof1: "profileOf ?s1 u = Some (?f p)"
    by (rule profileOf_updated[OF Cons.prems(1)]) simp
  have notin: "aid \<notin> set (map fst cs)" and dist: "distinct (map fst cs)"
    using Cons.prems(2) c by auto
  have sel1: "\<forall>c\<in>set cs. \<exists>a. selectAttempt ?s1 (fst c) u = Some a \<and> a_completedAt a = None"
  proof
    fix d assume d: "d \<in> set cs"
    then have "fst d \<noteq> aid" using notin by auto
    then have "selectAttempt ?s1 (fst d) u = selectAttempt s (fst d) u"
      by (rule selectAttempt_other)
    with Cons.prems(3) d show "\<exists>a. selectAttempt ?s1 (fst d) u = Some a \<and> a_completedAt a = None"
      by simp
  qed
  from Cons.IH[OF prof1 dist sel1]
  obtain rs s' p' where rest: "completeAll u cs ?s1 = (rs, s')" and ok: "list_all succeeded rs"
    and prof': "profileOf s' u = Some p'"
    and tot: "p_totalQuizzesTaken p' = p_totalQuizzesTaken (?f p) + int (length cs)"
    and hi: "p_highestScore p' = fold max (attemptScores ?s1 u (map fst cs)) (p_highestScore (?f p))"
    by blast
  have scores: "attemptScores ?s1 u (map fst cs) = attemptScores s u (map fst cs)"
    by (rule attemptScores_other[OF notin])
  have head: "attemptScores s u (map fst (c # cs)) = a_score a # attemptScores s u (map fst cs)"
    using sel c by (simp add: attemptScores_def)
  have "completeAll u (c # cs) s =
      (Inr \<lparr> cr_attemptId = a_id a, cr_score = a_score a,
             cr_totalQuestions = a_totalQuestions a, cr_startedAt = a_startedAt a,
             cr_completedAt = now \<rparr> # rs, s')"
    using run rest c by simp
  moreover have "list_all succeeded (Inr \<lparr> cr_attemptId = a_id a, cr_score = a_score a,
             cr_totalQuestions = a_totalQuestions a, cr_startedAt = a_startedAt a,
             cr_completedAt = now \<rparr> # rs)"
    using ok by (simp add: succeeded_def)
  moreover have "p_totalQuizzesTaken p' = p_totalQuizzesTaken p + int (length (c # cs))"
    using tot by simp
  moreover have "p_highestScore p' =
      fold max (attemptScores s u (map fst (c # cs))) (p_highestScore p)"
    using hi scores head by (simp add: max.commute)
  ultimately show ?case using prof' by blast
qed


lemma fold_max_zero:
  assumes "xs \<noteq> []" and "\<forall>x\<in>set xs. (0::int) \<le> x"
  shows "fold max xs 0 = Max (set xs)"
proof -
  have "fold max xs 0 = Max (set (0 # xs))" by (simp only: Max.set_eq_fold)
  also have "\<dots> = max 0 (Max (set xs))" using assms(1) by simp
  also have "\<dots> = Max (set xs)"
  proof -
    obtain x where "x \<in> set xs" using assms(1) by (cases xs) auto
    then have "0 \<le> x" and "x \<le> Max (set xs)" using assms(2) by auto
    then show ?thesis by simp
  qed
  finally show ?thesis .
qed

lemma completeAll_fresh_profile:
  assumes ne: "cs \<noteq> []" and dist: "distinct (map fst cs)"
    and sel: "\<forall>c\<in>set cs. \<exists>a. selectAttempt s (fst c) u = Some a \<and> a_completedAt a = None \<and>
                 0 \<le> a_score a"
    and prof: "case profileOf s u of
                 None \<Rightarrow> \<forall>c\<in>set cs. fst (snd c) \<notin> set (map p_id (userProfileTable s))
               | Some p \<Rightarrow> p_totalQuizzesTaken p = 0 \<and> p_highestScore p = 0"
  shows "\<exists>rs s' p. completeAll u cs s = (rs, s') \<and> list_all succeeded rs \<and>
           profileOf s' u = Some p \<and>
           p_totalQuizzesTaken p = int (length cs) \<and>
           p_highestScore p = Max (set (attemptScores s u (map fst cs)))"
proof (cases "profileOf s u")
  case (Some p)
  have sel': "\<forall>c\<in>set cs. \<exists>a. selectAttempt s (fst c) u = Some a \<and> a_completedAt a = None"
    using sel by blast
  from completeAll_present[OF Some dist sel']
  obtain rs s' p' where run: "completeAll u cs s = (rs, s')" and ok: "list_all succeeded rs"
    and prof': "profileOf s' u = Some p'"
    and tot: "p_totalQuizzesTaken p' = p_totalQuizzesTaken p + int (length cs)"
    and hi: "p_highestScore p' = fold max (attemptScores s u (map fst cs)) (p_highestScore p)"
    by blast
  have zero: "p_totalQuizzesTaken p = 0" "p_highestScore p = 0"
    using prof Some by simp_all
  have nonneg: "\<forall>x\<in>set (attemptScores s u (map fst cs)). 0 \<le> x"
    using sel by (auto simp: attemptScores_def)
  have "attemptScores s u (map fst cs) \<noteq> []"
    using ne by (simp add: attemptScores_def)
  then have "fold max (attemptScores s u (map fst cs)) 0 = Max (set (attemptScores s u (map fst cs)))"
    using nonneg by (rule fold_max_zero)
  with run ok prof' tot hi zero show ?thesis by simp
next
  case None
  obtain c cs' where cs: "cs = c # cs'" using ne by (cases cs) auto
  obtain aid pid now where c: "c = (aid, pid, now)" by (cases c) auto
  from sel cs c obtain a where
    sela: "selectAttempt s aid u = Some a" and open_a: "a_completedAt a = None"
    by auto
  have fresh: "pid \<notin> set (map p_id (userProfileTable s))"
    using prof None cs c by simp
  let ?r = "\<lparr> p_id = pid, p_userId = u, p_createdAt = now, p_updatedAt = now,
              p_totalQuizzesTaken = 1, p_highestScore = a_score a \<rparr>"
  let ?s1 = "s\<lparr> quizAttemptTable :=
          update_where (\<lambda>a. a_id a = aid) (\<lambda>a. a\<lparr> a_completedAt := Some now \<rparr>)
            (quizAttemptTable s),
        userProfileTable := userProfileTable s @ [?r] \<rparr>"
  have run: "completeAttempt u aid pid now s =
      (Inr \<lparr> cr_attemptId = a_id a, cr_score = a_score a,
             cr_totalQuestions = a_totalQuestions a, cr_startedAt = a_startedAt a,
             cr_completedAt = now \<rparr>, ?s1)"
    using completeAttempt_absent[OF sela open_a None, of pid now] fresh by simp
  have prof1: "profileOf ?s1 u = Some ?r"
    by (rule profileOf_appended[OF None]) simp
  have notin: "aid \<notin> set (map fst cs')" and dist': "distinct (map fst cs')"
    using dist cs c by auto
  have sel1: "\<forall>c\<in>set cs'. \<exists>a. selectAttempt ?s1 (fst c) u = Some a \<and> a_completedAt a = None"
  proof
    fix d assume d: "d \<in> set cs'"
    then have "fst d \<noteq> aid" using notin by auto
    then have "selectAttempt ?s1 (fst d) u = selectAttempt s (fst d) u"
      by (rule selectAttempt_other)
    moreover have "\<exists>a. selectAttempt s (fst d) u = Some a \<and> a_completedAt a = None"
      using sel d cs by auto
    ultimately show "\<exists>a. selectAttempt ?s1 (fst d) u = Some a \<and> a_completedAt a = None"
      by simp
  qed
  from completeAll_present[OF prof1 dist' sel1]
  obtain rs s' p' where rest: "completeAll u cs' ?s1 = (rs, s')" and ok: "list_all succeeded rs"
    and prof': "profileOf s' u = Some p'"
    and tot: "p_totalQuizzesTaken p' = p_totalQuizzesTaken ?r + int (length cs')"
    and hi: "p_highestScore p' = fold max (attemptScores ?s1 u (map fst cs')) (p_highestScore ?r)"
    by blast
  have scores: "attemptScores ?s1 u (map fst cs') = attemptScores s u (map fst cs')"
    by (rule attemptScores_other[OF notin])
  have head: "attemptScores s u (map fst cs) = a_score a # attemptScores s u (map fst cs')"
    using sela c cs by (simp add: attemptScores_def)
  have "completeAll u cs s =
      (Inr \<lparr> cr_attemptId = a_id a, cr_score = a_score a,
             cr_totalQuestions = a_totalQuestions a, cr_startedAt = a_startedAt a,
             cr_completedAt = now \<rparr> # rs, s')"
    using run rest c cs by simp
  moreover have "list_all succeeded (Inr \<lparr> cr_attemptId = a_id a, cr_score = a_score a,
             cr_totalQuestions = a_totalQuestions a, cr_startedAt = a_startedAt a,
             cr_completedAt = now \<rparr> # rs)"
    using ok by (simp add: succeeded_def)
  moreover have "p_totalQuizzesTaken p' = int (length cs)"
    using tot cs by simp
  moreover have "p_highestScore p' = Max (set (attemptScores s u (map fst cs)))"
    using hi scores head by (simp only: Max.set_eq_fold) simp
  ultimately show ?thesis using prof' by blast
qed


lemma completeAttempt_profile_rule:
  assumes "selectAttempt s aid u = Some a" and "a_completedAt a = None"
    and "completeAttempt u aid pid now s = (Inr r, s')"
  shows "profileOf s' u =
     Some (case profileOf s u of
             None \<Rightarrow> \<lparr> p_id = pid, p_userId = u, p_createdAt = now, p_updatedAt = now,
                       p_totalQuizzesTaken = 1, p_highestScore = a_score a \<rparr>
           | Some p \<Rightarrow> p\<lparr> p_totalQuizzesTaken := p_totalQuizzesTaken p + 1,
                          p_highestScore := max (p_highestScore p) (a_score a) \<rparr>)"
proof (cases "profileOf s u")
  case None
  from assms(3) completeAttempt_absent[OF assms(1,2) None, of pid now]
  have "s' = s\<lparr> quizAttemptTable :=
            update_where (\<lambda>a. a_id a = aid) (\<lambda>a. a\<lparr> a_completedAt := Some now \<rparr>)
              (quizAttemptTable s),
          userProfileTable := userProfileTable s @
            [\<lparr> p_id = pid, p_userId = u, p_createdAt = now, p_updatedAt = now,
               p_totalQuizzesTaken = 1, p_highestScore = a_score a \<rparr>] \<rparr>"
    by (simp split: if_splits)
  then show ?thesis
    using profileOf_appended[OF None, of "\<lparr> p_id = pid, p_userId = u, p_createdAt = now, p_updatedAt = now,
               p_totalQuizzesTaken = 1, p_highestScore = a_score a \<rparr>"] None
    by simp
next
  case (Some p)
  from assms(3) completeAttempt_present[OF assms(1,2) Some, of pid now]
  have "s' = s\<lparr> quizAttemptTable :=
          update_where (\<lambda>a. a_id a = aid) (\<lambda>a. a\<lparr> a_completedAt := Some now \<rparr>)
            (quizAttemptTable s),
        userProfileTable :=
          update_where (\<lambda>x. p_userId x = u)
            (\<lambda>x. x\<lparr> p_totalQuizzesTaken := p_totalQuizzesTaken p + 1,
                     p_highestScore := max (p_highestScore p) (a_score a) \<rparr>)
            (userProfileTable s) \<rparr>"
    by simp
  then show ?thesis
    using profileOf_updated[OF Some, of "\<lambda>x. x\<lparr> p_totalQuizzesTaken := p_totalQuizzesTaken p + 1,
                     p_highestScore := max (p_highestScore p) (a_score a) \<rparr>"] Some
    by simp
qed

text \<open>
  C6.  Let a user have no profile yet, or a profile as its columns default (both counters
  0), and let \<open>cs\<close> be completions of N \<open>\<ge> 1\<close> distinct in-progress attempts of that user,
  with scores \<open>s1..sN\<close> (scores are never negative).  Then, in whatever order the
  completions are made, all succeed and the profile ends with \<open>totalQuizzesTaken = N\<close> and
  \<open>highestScore = max(s1..sN)\<close>.  Each successful completion applies the rule: no profile,
  create one with counters \<open>1\<close> and the score; otherwise add 1 to \<open>totalQuizzesTaken\<close> and
  take the maximum of the old \<open>highestScore\<close> and the score.
\<close>

theorem profile_after_completions:
  assumes "cs \<noteq> []" and "distinct (map fst cs)"
    and "\<forall>c\<in>set cs. \<exists>a. selectAttempt s (fst c) userId = Some a \<and> a_completedAt a = None \<and>
                 0 \<le> a_score a"
    and "case profileOf s userId of
           None \<Rightarrow> \<forall>c\<in>set cs. fst (snd c) \<notin> set (map p_id (userProfileTable s))
         | Some p \<Rightarrow> p_totalQuizzesTaken p = 0 \<and> p_highestScore p = 0"
  shows "(\<forall>cs'. mset cs' = mset cs \<longrightarrow>
            (\<exists>rs s' p. completeAll userId cs' s = (rs, s') \<and> list_all succeeded rs \<and>
               profileOf s' userId = Some p \<and>
               p_totalQuizzesTaken p = int (length cs) \<and>
               p_highestScore p = Max (set (attemptScores s userId (map fst cs))))) \<and>
         (\<forall>attemptId profileId now a r s'.
            selectAttempt s attemptId userId = Some a \<and> a_completedAt a = None \<and>
            completeAttempt userId attemptId profileId now s = (Inr r, s') \<longrightarrow>
            profileOf s' userId =
              Some (case profileOf s userId of
                      None \<Rightarrow> \<lparr> p_id = profileId, p_userId = userId, p_createdAt = now,
                                p_updatedAt = now, p_totalQuizzesTaken = 1,
                                p_highestScore = a_score a \<rparr>
                    | Some p \<Rightarrow> p\<lparr> p_totalQuizzesTaken := p_totalQuizzesTaken p + 1,
                                   p_highestScore := max (p_highestScore p) (a_score a) \<rparr>))"
proof (intro conjI allI impI)
  fix cs' :: "(ident \<times> ident \<times> timestamp) list"
  assume perm: "mset cs' = mset cs"
  then have sets: "set cs' = set cs" by (rule mset_eq_setD)
  have len: "length cs' = length cs" using perm by (rule mset_eq_length)
  have ne': "cs' \<noteq> []" using len assms(1) by auto
  have "mset (map fst cs') = mset (map fst cs)" using perm by simp
  then have dist': "distinct (map fst cs')"
    using assms(2) mset_eq_imp_distinct_iff by blast
  have sel': "\<forall>c\<in>set cs'. \<exists>a. selectAttempt s (fst c) userId = Some a \<and>
                 a_completedAt a = None \<and> 0 \<le> a_score a"
    using assms(3) sets by simp
  have prof': "case profileOf s userId of
           None \<Rightarrow> \<forall>c\<in>set cs'. fst (snd c) \<notin> set (map p_id (userProfileTable s))
         | Some p \<Rightarrow> p_totalQuizzesTaken p = 0 \<and> p_highestScore p = 0"
    using assms(4) unfolding sets .
  have scores: "set (attemptScores s userId (map fst cs')) = set (attemptScores s userId (map fst cs))"
    using sets by (simp add: attemptScores_def)
  from completeAll_fresh_profile[OF ne' dist' sel' prof'] len scores
  show "\<exists>rs s' p. completeAll userId cs' s = (rs, s') \<and> list_all succeeded rs \<and>
               profileOf s' userId = Some p \<and>
               p_totalQuizzesTaken p = int (length cs) \<and>
               p_highestScore p = Max (set (attemptScores s userId (map fst cs)))"
    by simp
next
  fix attemptId profileId now a r s'
  assume "selectAttempt s attemptId userId = Some a \<and> a_completedAt a = None \<and>
            completeAttempt userId attemptId profileId now s = (Inr r, s')"
  then show "profileOf s' userId =
              Some (case profileOf s userId of
                      None \<Rightarrow> \<lparr> p_id = profileId, p_userId = userId, p_createdAt = now,
                                p_updatedAt = now, p_totalQuizzesTaken = 1,
                                p_highestScore = a_score a \<rparr>
                    | Some p \<Rightarrow> p\<lparr> p_totalQuizzesTaken := p_totalQuizzesTaken p + 1,
                                   p_highestScore := max (p_highestScore p) (a_score a) \<rparr>)"
    using completeAttempt_profile_rule by blast
qed

theorem profile_after_completions_witness:
  "(\<exists>rs s' p. completeAll ''u1'' [(''a1'', ''p1'', 50), (''a2'', ''p2'', 60)] ex_db1 = (rs, s') \<and>
       list_all succeeded rs \<and> profileOf s' ''u1'' = Some p \<and>
       p_totalQuizzesTaken p = 2 \<and> p_highestScore p = 2) \<and>
   (\<exists>rs s' p. completeAll ''u1'' [(''a2'', ''p2'', 60), (''a1'', ''p1'', 50)] ex_db1 = (rs, s') \<and>
       list_all succeeded rs \<and> profileOf s' ''u1'' = Some p \<and>
       p_totalQuizzesTaken p = 2 \<and> p_highestScore p = 2)"
proof -
  let ?cs = "[(''a1'', ''p1'', 50), (''a2'', ''p2'', 60)] :: (ident \<times> ident \<times> timestamp) list"
  have sel1: "selectAttempt ex_db1 ''a1'' ''u1'' = Some (ex_attempt ''a1'' 0)"
    and sel2: "selectAttempt ex_db1 ''a2'' ''u1'' = Some (ex_attempt ''a2'' 2)"
    by (simp_all add: selectAttempt_def ex_db1_simps ex_attempt_simps)
  have h1: "?cs \<noteq> []" by simp
  have h2: "distinct (map fst ?cs)" by simp
  have h3: "\<forall>c\<in>set ?cs. \<exists>a. selectAttempt ex_db1 (fst c) ''u1'' = Some a \<and>
               a_completedAt a = None \<and> 0 \<le> a_score a"
    by (simp add: sel1 sel2 ex_attempt_simps)
  have h4: "case profileOf ex_db1 ''u1'' of
           None \<Rightarrow> \<forall>c\<in>set ?cs. fst (snd c) \<notin> set (map p_id (userProfileTable ex_db1))
         | Some p \<Rightarrow> p_totalQuizzesTaken p = 0 \<and> p_highestScore p = 0"
    by (simp add: profileOf_def ex_db1_simps)
  have mx: "Max (set (attemptScores ex_db1 ''u1'' (map fst ?cs))) = 2"
    by (simp add: attemptScores_def sel1 sel2 ex_attempt_simps)
  from profile_after_completions[OF h1 h2 h3 h4]
  have all: "\<forall>cs'. mset cs' = mset ?cs \<longrightarrow>
            (\<exists>rs s' p. completeAll ''u1'' cs' ex_db1 = (rs, s') \<and> list_all succeeded rs \<and>
               profileOf s' ''u1'' = Some p \<and>
               p_totalQuizzesTaken p = int (length ?cs) \<and>
               p_highestScore p = Max (set (attemptScores ex_db1 ''u1'' (map fst ?cs))))"
    by blast
  have a: "\<exists>rs s' p. completeAll ''u1'' ?cs ex_db1 = (rs, s') \<and>
       list_all succeeded rs \<and> profileOf s' ''u1'' = Some p \<and>
       p_totalQuizzesTaken p = 2 \<and> p_highestScore p = 2"
    using all[rule_format, of ?cs] mx by simp
  have b: "\<exists>rs s' p. completeAll ''u1'' [(''a2'', ''p2'', 60), (''a1'', ''p1'', 50)] ex_db1 = (rs, s') \<and>
       list_all succeeded rs \<and> profileOf s' ''u1'' = Some p \<and>
       p_totalQuizzesTaken p = 2 \<and> p_highestScore p = 2"
    using all[rule_format, of "[(''a2'', ''p2'', 60), (''a1'', ''p1'', 50)]"] mx by simp
  from a b show ?thesis by blast
qed

section \<open>Where profiles come from\<close>

lemma insertUser_signup_values:
  "insertUser [(''id'', userId), (''username'', username), (''passwordHash'', passwordHash)] tbl
     = None"
  by (simp add: insertUser_def)

lemma signup_fails:
  "signup username passwordHash uid pid now sessionOk s =
     (Inl (HTTPException 500 ''Failed to create user''), s)"
  by (simp add: signup_def transaction_def insertUser_signup_values)

lemma startAttempt_profiles:
  "userProfileTable (snd (startAttempt u qsid aid now s)) = userProfileTable s"
  by (simp add: startAttempt_def insert_row_def Let_def split: option.splits)

lemma submitAnswer_profiles:
  "userProfileTable (snd (submitAnswer u aid qid ua ansid now s)) = userProfileTable s"
  by (simp add: submitAnswer_def transaction_def insert_row_def Let_def split: option.splits)

lemma postCompletion_profiles:
  "userProfileTable (snd (postCompletion u m t res i1 i2 s)) = userProfileTable s"
  by (simp add: postCompletion_def transaction_def insert_row_def Let_def split: option.splits)

lemma update_where_keeps:
  assumes "\<And>x. g (f x) = g x"
  shows "map g (update_where P f xs) = map g xs"
  using assms by (induction xs) (auto simp: update_where_def)

lemma completeAttempt_profiles:
  assumes "selectAttempt s aid u = Some a"
    and "completeAttempt u aid pid now s = (Inr r, s')"
  shows "case profileOf s u of
           None \<Rightarrow> userProfileTable s' = userProfileTable s @
                     [\<lparr> p_id = pid, p_userId = u, p_createdAt = now, p_updatedAt = now,
                        p_totalQuizzesTaken = 1, p_highestScore = a_score a \<rparr>]
         | Some p \<Rightarrow> userProfileTable s' =
                       update_where (\<lambda>x. p_userId x = u)
                         (\<lambda>x. x\<lparr> p_totalQuizzesTaken := p_totalQuizzesTaken p + 1,
                                  p_highestScore := max (p_highestScore p) (a_score a) \<rparr>)
                         (userProfileTable s)"
proof -
  have open_a: "a_completedAt a = None"
    using assms by (auto simp: completeAttempt_def split: if_splits)
  show ?thesis
  proof (cases "profileOf s u")
    case None
    then show ?thesis
      using assms(2) completeAttempt_absent[OF assms(1) open_a None, of pid now]
      by (auto split: if_splits)
  next
    case (Some p)
    then show ?thesis
      using assms(2) completeAttempt_present[OF assms(1) open_a Some, of pid now]
      by auto
  qed
qed

lemma completeAttempt_profile_exists:
  assumes "selectAttempt s aid u = Some a"
    and "completeAttempt u aid pid now s = (Inr r, s')"
  shows "\<exists>p'. profileOf s' u = Some p'"
proof -
  have open_a: "a_completedAt a = None"
    using assms by (auto simp: completeAttempt_def split: if_splits)
  from completeAttempt_profile_rule[OF assms(1) open_a assms(2)] show ?thesis by blast
qed


text \<open>
  C2.  A user's profile row is created by that user's attempt completion, when the user
  has none: the completion appends one row with \<open>totalQuizzesTaken = 1\<close> and the
  attempt's score.  After a completion the user has a profile, and a completion by a user
  who has one rewrites the counters of that user's row in place: the table keeps its
  rows' ids, users and creation times, in the same order.  Nothing else creates a
  profile: signup always fails with its 500 and leaves the store as it was (its user
  insert passes \<open>passwordHash\<close> where the table's key is \<open>password_hash\<close>, so the
  transaction rolls back before the profile insert), and a failed completion, starting an
  attempt, submitting an answer and posting a chat completion leave the profile table as
  it was.
\<close>

theorem profile_created_only_by_completion:
  "(\<forall>username passwordHash uid pid now sessionOk.
      signup username passwordHash uid pid now sessionOk s =
        (Inl (HTTPException 500 ''Failed to create user''), s)) \<and>
   (\<forall>u qsid aid now.
      userProfileTable (snd (startAttempt u qsid aid now s)) = userProfileTable s) \<and>
   (\<forall>u aid qid ua ansid now.
      userProfileTable (snd (submitAnswer u aid qid ua ansid now s)) = userProfileTable s) \<and>
   (\<forall>u m t res i1 i2.
      userProfileTable (snd (postCompletion u m t res i1 i2 s)) = userProfileTable s) \<and>
   (\<forall>u aid pid now e s'.
      completeAttempt u aid pid now s = (Inl e, s') \<longrightarrow> s' = s) \<and>
   (\<forall>u aid pid now a r s'.
      selectAttempt s aid u = Some a \<and> completeAttempt u aid pid now s = (Inr r, s') \<longrightarrow>
        (\<exists>p'. profileOf s' u = Some p') \<and>
        (case profileOf s u of
           None \<Rightarrow>
             (\<exists>c d. userProfileTable s' = userProfileTable s @
                     [\<lparr> p_id = pid, p_userId = u, p_createdAt = c, p_updatedAt = d,
                        p_totalQuizzesTaken = 1, p_highestScore = a_score a \<rparr>])
         | Some p \<Rightarrow>
             userProfileTable s' =
               update_where (\<lambda>x. p_userId x = u)
                 (\<lambda>x. x\<lparr> p_totalQuizzesTaken := p_totalQuizzesTaken p + 1,
                          p_highestScore := max (p_highestScore p) (a_score a) \<rparr>)
                 (userProfileTable s) \<and>
             map p_id (userProfileTable s') = map p_id (userProfileTable s) \<and>
             map p_userId (userProfileTable s') = map p_userId (userProfileTable s) \<and>
             map p_createdAt (userProfileTable s') = map p_createdAt (userProfileTable s)))"
proof (intro conjI allI impI)
  fix username passwordHash uid pid now sessionOk
  show "signup username passwordHash uid pid now sessionOk s =
        (Inl (HTTPException 500 ''Failed to create user''), s)"
    by (rule signup_fails)
next
  fix u qsid aid now
  show "userProfileTable (snd (startAttempt u qsid aid now s)) = userProfileTable s"
    by (rule startAttempt_profiles)
next
  fix u aid qid ua ansid now
  show "userProfileTable (snd (submitAnswer u aid qid ua ansid now s)) = userProfileTable s"
    by (rule submitAnswer_profiles)
next
  fix u m t res i1 i2
  show "userProfileTable (snd (postCompletion u m t res i1 i2 s)) = userProfileTable s"
    by (rule postCompletion_profiles)
next
  fix u aid pid now e s'
  assume "completeAttempt u aid pid now s = (Inl e, s')"
  then show "s' = s" by (rule completeAttempt_err_unchanged)
next
  fix u aid pid now a r s'
  assume h: "selectAttempt s aid u = Some a \<and> completeAttempt u aid pid now s = (Inr r, s')"
  then show "\<exists>p'. profileOf s' u = Some p'"
    using completeAttempt_profile_exists by blast
next
  fix u aid pid now a r s'
  assume h: "selectAttempt s aid u = Some a \<and> completeAttempt u aid pid now s = (Inr r, s')"
  then have c: "case profileOf s u of
           None \<Rightarrow> userProfileTable s' = userProfileTable s @
                     [\<lparr> p_id = pid, p_userId = u, p_createdAt = now, p_updatedAt = now,
                        p_totalQuizzesTaken = 1, p_highestScore = a_score a \<rparr>]
         | Some p \<Rightarrow> userProfileTable s' =
                       update_where (\<lambda>x. p_userId x = u)
                         (\<lambda>x. x\<lparr> p_totalQuizzesTaken := p_totalQuizzesTaken p + 1,
                                  p_highestScore := max (p_highestScore p) (a_score a) \<rparr>)
                         (userProfileTable s)"
    using completeAttempt_profiles by blast
  show "case profileOf s u of
           None \<Rightarrow>
             (\<exists>c d. userProfileTable s' = userProfileTable s @
                     [\<lparr> p_id = pid, p_userId = u, p_createdAt = c, p_updatedAt = d,
                        p_totalQuizzesTaken = 1, p_highestScore = a_score a \<rparr>])
         | Some p \<Rightarrow>
             userProfileTable s' =
               update_where (\<lambda>x. p_userId x = u)
                 (\<lambda>x. x\<lparr> p_totalQuizzesTaken := p_totalQuizzesTaken p + 1,
                          p_highestScore := max (p_highestScore p) (a_score a) \<rparr>)
                 (userProfileTable s) \<and>
             map p_id (userProfileTable s') = map p_id (userProfileTable s) \<and>
             map p_userId (userProfileTable s') = map p_userId (userProfileTable s) \<and>
             map p_createdAt (userProfileTable s') = map p_createdAt (userProfileTable s)"
  proof (cases "profileOf s u")
    case None
    with c show ?thesis by auto
  next
    case (Some p)
    with c show ?thesis by (simp add: update_where_keeps)
  qed
qed

theorem profile_created_only_by_completion_witness:
  "signup ''alice'' ''h2'' ''u9'' ''p9'' 3 True ex_db =
     (Inl (HTTPException 500 ''Failed to create user''), ex_db) \<and>
   userProfileTable ex_db1 = [] \<and>
   (\<exists>r1 s1 r2 s2 c d.
      completeAttempt ''u1'' ''a2'' ''px'' 50 ex_db1 = (Inr r1, s1) \<and>
      userProfileTable s1 =
        [\<lparr> p_id = ''px'', p_userId = ''u1'', p_createdAt = c, p_updatedAt = d,
           p_totalQuizzesTaken = 1, p_highestScore = 2 \<rparr>] \<and>
      completeAttempt ''u1'' ''a1'' ''py'' 60 s1 = (Inr r2, s2) \<and>
      userProfileTable s2 =
        [\<lparr> p_id = ''px'', p_userId = ''u1'', p_createdAt = c, p_updatedAt = d,
           p_totalQuizzesTaken = 2, p_highestScore = 2 \<rparr>])"
proof -
  have w0: "signup ''alice'' ''h2'' ''u9'' ''p9'' 3 True ex_db =
     (Inl (HTTPException 500 ''Failed to create user''), ex_db)"
    by (rule profile_created_only_by_completion[of ex_db, THEN conjunct1, rule_format])
  have sel2: "selectAttempt ex_db1 ''a2'' ''u1'' = Some (ex_attempt ''a2'' 2)"
    and sel1: "selectAttempt ex_db1 ''a1'' ''u1'' = Some (ex_attempt ''a1'' 0)"
    by (simp_all add: selectAttempt_def ex_db1_simps ex_attempt_simps)
  have none: "profileOf ex_db1 ''u1'' = None"
    by (simp add: profileOf_def ex_db1_simps)
  let ?row = "\<lparr> p_id = ''px'', p_userId = ''u1'', p_createdAt = 50, p_updatedAt = 50,
                p_totalQuizzesTaken = 1, p_highestScore = a_score (ex_attempt ''a2'' 2) \<rparr>"
  let ?s1 = "ex_db1\<lparr> quizAttemptTable :=
            update_where (\<lambda>a. a_id a = ''a2'') (\<lambda>a. a\<lparr> a_completedAt := Some 50 \<rparr>)
              (quizAttemptTable ex_db1),
          userProfileTable := userProfileTable ex_db1 @ [?row] \<rparr>"
  obtain r1 where run1: "completeAttempt ''u1'' ''a2'' ''px'' 50 ex_db1 = (Inr r1, ?s1)"
    using completeAttempt_absent[OF sel2 _ none, of "''px''" 50]
    by (simp add: ex_attempt_simps ex_db1_simps)
  note inst1 = profile_created_only_by_completion[of ex_db1, THEN conjunct2, THEN conjunct2,
      THEN conjunct2, THEN conjunct2, THEN conjunct2, rule_format, OF conjI[OF sel2 run1]]
  from inst1[THEN conjunct2] none
  obtain c d where t1: "userProfileTable ?s1 =
        [\<lparr> p_id = ''px'', p_userId = ''u1'', p_createdAt = c, p_updatedAt = d,
           p_totalQuizzesTaken = 1, p_highestScore = 2 \<rparr>]"
    by (auto simp: ex_db1_simps ex_attempt_simps)
  from inst1[THEN conjunct1] obtain p' where some1: "profileOf ?s1 ''u1'' = Some p'" by blast
  have p': "p' = \<lparr> p_id = ''px'', p_userId = ''u1'', p_createdAt = c, p_updatedAt = d,
           p_totalQuizzesTaken = 1, p_highestScore = 2 \<rparr>"
    using some1 unfolding profileOf_def t1 by simp
  have sel1': "selectAttempt ?s1 ''a1'' ''u1'' = Some (ex_attempt ''a1'' 0)"
    using selectAttempt_other[where b="''a1''" and aid="''a2''" and s=ex_db1 and now=50
        and t="userProfileTable ex_db1 @ [?row]" and u="''u1''"]
      sel1 by simp
  obtain r2 s2 where run2: "completeAttempt ''u1'' ''a1'' ''py'' 60 ?s1 = (Inr r2, s2)"
    using completeAttempt_present[OF sel1' _ some1, of "''py''" 60]
    by (simp add: ex_attempt_simps)
  note inst2 = profile_created_only_by_completion[of ?s1, THEN conjunct2, THEN conjunct2,
      THEN conjunct2, THEN conjunct2, THEN conjunct2, rule_format, OF conjI[OF sel1' run2]]
  from inst2[THEN conjunct2] some1
  have t2: "userProfileTable s2 =
        [\<lparr> p_id = ''px'', p_userId = ''u1'', p_createdAt = c, p_updatedAt = d,
           p_totalQuizzesTaken = 2, p_highestScore = 2 \<rparr>]"
    unfolding t1 p' by (simp add: update_where_def ex_attempt_simps)
  have e: "userProfileTable ex_db1 = []" by (simp add: ex_db1_simps)
  have "\<exists>r1 s1 r2 s2 c d.
      completeAttempt ''u1'' ''a2'' ''px'' 50 ex_db1 = (Inr r1, s1) \<and>
      userProfileTable s1 =
        [\<lparr> p_id = ''px'', p_userId = ''u1'', p_createdAt = c, p_updatedAt = d,
           p_totalQuizzesTaken = 1, p_highestScore = 2 \<rparr>] \<and>
      completeAttempt ''u1'' ''a1'' ''py'' 60 s1 = (Inr r2, s2) \<and>
      userProfileTable s2 =
        [\<lparr> p_id = ''px'', p_userId = ''u1'', p_createdAt = c, p_updatedAt = d,
           p_totalQuizzesTaken = 2, p_highestScore = 2 \<rparr>]"
  proof (intro exI conjI)
    show "completeAttempt ''u1'' ''a2'' ''px'' 50 ex_db1 = (Inr r1, ?s1)" by (rule run1)
    show "userProfileTable ?s1 =
        [\<lparr> p_id = ''px'', p_userId = ''u1'', p_createdAt = c, p_updatedAt = d,
           p_totalQuizzesTaken = 1, p_highestScore = 2 \<rparr>]" by (rule t1)
    show "completeAttempt ''u1'' ''a1'' ''py'' 60 ?s1 = (Inr r2, s2)" by (rule run2)
    show "userProfileTable s2 =
        [\<lparr> p_id = ''px'', p_userId = ''u1'', p_createdAt = c, p_updatedAt = d,
           p_totalQuizzesTaken = 2, p_highestScore = 2 \<rparr>]" by (rule t2)
  qed
  with w0 e show ?thesis by (intro conjI)
qed

section \<open>Repeated submissions for one question\<close>

lemma fresh_ids:
  assumes "finite (F :: string set)"
  shows "\<exists>ids. length ids = n \<and> distinct ids \<and> set ids \<inter> F = {}"
proof (induction n)
  case 0
  show ?case by simp
next
  case (Suc n)
  then obtain ids where ids: "length ids = n" "distinct ids" "set ids \<inter> F = {}" by blast
  have "finite (F \<union> set ids)" using assms by simp
  then obtain x where x: "x \<notin> F \<union> set ids"
    using ex_new_if_finite[OF infinite_UNIV_listI] by blast
  then have "length (x # ids) = Suc n \<and> distinct (x # ids) \<and> set (x # ids) \<inter> F = {}"
    using ids by auto
  then show ?case by blast
qed

lemma submitAnswer_step:
  assumes "selectAttempt s aid u = Some a" and "a_completedAt a = None"
    and "find (\<lambda>q. q_id q = qid) (questionTable s) = Some q"
    and "q_questionSetId q = a_questionSetId a"
    and "answerId \<notin> set (map ans_id (quizAnswerTable s))"
  shows "\<exists>r s'. submitAnswer u aid qid ua answerId now s = (Inr r, s') \<and>
           selectAttempt s' aid u =
             Some (a\<lparr> a_score := a_score a +
                      (if ua = q_correctAnswer q \<and>
                          (q_type q = ''single_selection'' \<or> q_type q = ''true_false'')
                       then 1 else 0) \<rparr>) \<and>
           questionTable s' = questionTable s \<and>
           map ans_id (quizAnswerTable s') = map ans_id (quizAnswerTable s) @ [answerId]"
proof -
  have idu: "a_id a = aid"
    and sel: "find (\<lambda>a. a_id a = aid \<and> a_userId a = u) (quizAttemptTable s) = Some a"
    using selectAttempt_SomeD[OF assms(1)] assms(1) by (simp_all add: selectAttempt_def)
  have upd: "find (\<lambda>a. a_id a = aid \<and> a_userId a = u)
           (update_where (\<lambda>x. a_id x = aid) (\<lambda>x. x\<lparr> a_score := a_score a + 1 \<rparr>)
              (quizAttemptTable s)) = Some (a\<lparr> a_score := a_score a + 1 \<rparr>)"
    by (subst find_update_where) (simp_all add: sel idu)
  show ?thesis
    unfolding submitAnswer_ok[OF assms, of ua now]
    by (auto simp: Let_def selectAttempt_def upd sel)
qed

lemma submitAll_same_question:
  assumes "selectAttempt s aid u = Some a" and "a_completedAt a = None"
    and "find (\<lambda>q. q_id q = qid) (questionTable s) = Some q"
    and "q_questionSetId q = a_questionSetId a"
    and "distinct (map (\<lambda>sub. fst (snd sub)) subs)"
    and "set (map (\<lambda>sub. fst (snd sub)) subs) \<inter> set (map ans_id (quizAnswerTable s)) = {}"
  shows "\<exists>rs s'. submitAll u aid (map (\<lambda>sub. (qid, fst sub, fst (snd sub), snd (snd sub))) subs) s
                   = (rs, s') \<and>
           list_all succeeded rs \<and>
           length (quizAnswerTable s') = length (quizAnswerTable s) + length subs \<and>
           selectAttempt s' aid u =
             Some (a\<lparr> a_score := a_score a +
                      int (length (filter (\<lambda>sub. fst sub = q_correctAnswer q \<and>
                             (q_type q = ''single_selection'' \<or> q_type q = ''true_false''))
                           subs)) \<rparr>)"
  using assms
proof (induction subs arbitrary: s a)
  case Nil
  then show ?case by simp
next
  case (Cons sub subs)
  obtain ua i t where sub: "sub = (ua, i, t)" by (cases sub) auto
  let ?inc = "if ua = q_correctAnswer q \<and>
                 (q_type q = ''single_selection'' \<or> q_type q = ''true_false'')
              then 1 else 0 :: int"
  have fresh: "i \<notin> set (map ans_id (quizAnswerTable s))"
    using Cons.prems(6) sub by auto
  from submitAnswer_step[OF Cons.prems(1-4) fresh, of ua t]
  obtain r s1 where run: "submitAnswer u aid qid ua i t s = (Inr r, s1)"
    and sel1: "selectAttempt s1 aid u = Some (a\<lparr> a_score := a_score a + ?inc \<rparr>)"
    and q1: "questionTable s1 = questionTable s"
    and ids1: "map ans_id (quizAnswerTable s1) = map ans_id (quizAnswerTable s) @ [i]"
    by blast
  have len1: "length (quizAnswerTable s1) = length (quizAnswerTable s) + 1"
    using arg_cong[OF ids1, of length] by simp
  have p2: "a_completedAt (a\<lparr> a_score := a_score a + ?inc \<rparr>) = None"
    using Cons.prems(2) by simp
  have p3: "find (\<lambda>q. q_id q = qid) (questionTable s1) = Some q"
    using Cons.prems(3) q1 by simp
  have p4: "q_questionSetId q = a_questionSetId (a\<lparr> a_score := a_score a + ?inc \<rparr>)"
    using Cons.prems(4) by simp
  have p5: "distinct (map (\<lambda>sub. fst (snd sub)) subs)"
    using Cons.prems(5) by simp
  have p6: "set (map (\<lambda>sub. fst (snd sub)) subs) \<inter> set (map ans_id (quizAnswerTable s1)) = {}"
    using Cons.prems(5,6) sub ids1 by auto
  from Cons.IH[OF sel1 p2 p3 p4 p5 p6]
  obtain rs s' where rest:
      "submitAll u aid (map (\<lambda>sub. (qid, fst sub, fst (snd sub), snd (snd sub))) subs) s1 = (rs, s')"
    and ok: "list_all succeeded rs"
    and len: "length (quizAnswerTable s') = length (quizAnswerTable s1) + length subs"
    and sel': "selectAttempt s' aid u =
             Some (a\<lparr> a_score := a_score a + ?inc \<rparr>\<lparr> a_score :=
                      a_score (a\<lparr> a_score := a_score a + ?inc \<rparr>) +
                      int (length (filter (\<lambda>sub. fst sub = q_correctAnswer q \<and>
                             (q_type q = ''single_selection'' \<or> q_type q = ''true_false''))
                           subs)) \<rparr>)"
    by blast
  have "submitAll u aid (map (\<lambda>sub. (qid, fst sub, fst (snd sub), snd (snd sub))) (sub # subs)) s
          = (Inr r # rs, s')"
    using run rest sub by simp
  moreover have "list_all succeeded (Inr r # rs)"
    using ok by (simp add: succeeded_def)
  moreover have "length (quizAnswerTable s') = length (quizAnswerTable s) + length (sub # subs)"
    using len len1 by simp
  moreover have "selectAttempt s' aid u =
             Some (a\<lparr> a_score := a_score a +
                      int (length (filter (\<lambda>sub. fst sub = q_correctAnswer q \<and>
                             (q_type q = ''single_selection'' \<or> q_type q = ''true_false''))
                           (sub # subs))) \<rparr>)"
    using sel' sub by simp
  ultimately show ?case by blast
qed


text \<open>
  C3.  Take an in-progress attempt of the caller and a question of its set.  Any series
  of submissions for that one question, with fresh answer ids, succeeds throughout: each
  submission adds one answer row, and each correct submission (the question's
  \<open>correctAnswer\<close>, for a question of type \<open>single_selection\<close> or \<open>true_false\<close>) adds
  one to the score, however often it is repeated.  Hence, for a question of one of these
  two types, some series of submissions for that question leaves the attempt, still in
  progress, with a score above \<open>totalQuestions\<close>.
\<close>

theorem repeated_submissions_inflate_score:
  assumes "selectAttempt s attemptId userId = Some a" and "a_completedAt a = None"
    and "find (\<lambda>q. q_id q = questionId) (questionTable s) = Some q"
    and "q_questionSetId q = a_questionSetId a"
  shows "(\<forall>subs. distinct (map (\<lambda>sub. fst (snd sub)) subs) \<and>
            set (map (\<lambda>sub. fst (snd sub)) subs) \<inter> set (map ans_id (quizAnswerTable s)) = {} \<longrightarrow>
            (\<exists>rs s'. submitAll userId attemptId
                        (map (\<lambda>sub. (questionId, fst sub, fst (snd sub), snd (snd sub))) subs) s
                        = (rs, s') \<and>
               list_all succeeded rs \<and>
               length (quizAnswerTable s') = length (quizAnswerTable s) + length subs \<and>
               selectAttempt s' attemptId userId =
                 Some (a\<lparr> a_score := a_score a +
                          int (length (filter (\<lambda>sub. fst sub = q_correctAnswer q \<and>
                                 (q_type q = ''single_selection'' \<or> q_type q = ''true_false''))
                               subs)) \<rparr>))) \<and>
         (q_type q = ''single_selection'' \<or> q_type q = ''true_false'' \<longrightarrow>
          (\<exists>subs rs s' a'.
             submitAll userId attemptId
               (map (\<lambda>sub. (questionId, fst sub, fst (snd sub), snd (snd sub))) subs) s = (rs, s') \<and>
             list_all succeeded rs \<and>
             selectAttempt s' attemptId userId = Some a' \<and> a_completedAt a' = None \<and>
             a_totalQuestions a' < a_score a'))"
proof (intro conjI allI impI)
  fix subs :: "(string \<times> ident \<times> timestamp) list"
  assume fresh: "distinct (map (\<lambda>sub. fst (snd sub)) subs) \<and>
            set (map (\<lambda>sub. fst (snd sub)) subs) \<inter> set (map ans_id (quizAnswerTable s)) = {}"
  show "\<exists>rs s'. submitAll userId attemptId
                        (map (\<lambda>sub. (questionId, fst sub, fst (snd sub), snd (snd sub))) subs) s
                        = (rs, s') \<and>
               list_all succeeded rs \<and>
               length (quizAnswerTable s') = length (quizAnswerTable s) + length subs \<and>
               selectAttempt s' attemptId userId =
                 Some (a\<lparr> a_score := a_score a +
                          int (length (filter (\<lambda>sub. fst sub = q_correctAnswer q \<and>
                                 (q_type q = ''single_selection'' \<or> q_type q = ''true_false''))
                               subs)) \<rparr>)"
    by (rule submitAll_same_question[OF assms(1-4) conjunct1[OF fresh] conjunct2[OF fresh]])
next
  assume scorable: "q_type q = ''single_selection'' \<or> q_type q = ''true_false''"
  define n where "n = nat (a_totalQuestions a - a_score a) + 1"
  obtain ids where ids: "length ids = n" "distinct ids"
      "set ids \<inter> set (map ans_id (quizAnswerTable s)) = {}"
    using fresh_ids[of "set (map ans_id (quizAnswerTable s))" n] by auto
  define subs :: "(string \<times> ident \<times> timestamp) list"
    where "subs = map (\<lambda>i. (q_correctAnswer q, i, 0)) ids"
  have keys: "map (\<lambda>sub. fst (snd sub)) subs = ids"
    by (simp add: subs_def comp_def)
  have allc: "filter (\<lambda>sub. fst sub = q_correctAnswer q \<and>
                 (q_type q = ''single_selection'' \<or> q_type q = ''true_false'')) subs = subs"
    using scorable by (simp add: subs_def)
  have len: "length subs = n" by (simp add: subs_def ids(1))
  have d: "distinct (map (\<lambda>sub. fst (snd sub)) subs)"
    and f: "set (map (\<lambda>sub. fst (snd sub)) subs) \<inter> set (map ans_id (quizAnswerTable s)) = {}"
    using ids keys by simp_all
  from submitAll_same_question[OF assms(1-4) d f]
  obtain rs s' where run: "submitAll userId attemptId
                        (map (\<lambda>sub. (questionId, fst sub, fst (snd sub), snd (snd sub))) subs) s
                        = (rs, s')"
    and ok: "list_all succeeded rs"
    and sel': "selectAttempt s' attemptId userId =
                 Some (a\<lparr> a_score := a_score a +
                          int (length (filter (\<lambda>sub. fst sub = q_correctAnswer q \<and>
                                 (q_type q = ''single_selection'' \<or> q_type q = ''true_false''))
                               subs)) \<rparr>)"
    by blast
  let ?a' = "a\<lparr> a_score := a_score a + int n \<rparr>"
  have sel2: "selectAttempt s' attemptId userId = Some ?a'"
    using sel' len by (simp only: allc)
  have "a_completedAt ?a' = None" using assms(2) by simp
  moreover have "a_totalQuestions ?a' < a_score ?a'" by (simp add: n_def)
  ultimately show "\<exists>subs rs s' a'.
            submitAll userId attemptId
              (map (\<lambda>sub. (questionId, fst sub, fst (snd sub), snd (snd sub))) subs) s = (rs, s') \<and>
            list_all succeeded rs \<and>
            selectAttempt s' attemptId userId = Some a' \<and> a_completedAt a' = None \<and>
            a_totalQuestions a' < a_score a'"
    using run ok sel2 by blast
qed

theorem repeated_submissions_inflate_score_witness:
  "selectAttempt ex_db1 ''a1'' ''u1'' = Some (ex_attempt ''a1'' 0) \<and>
   a_completedAt (ex_attempt ''a1'' 0) = None \<and>
   find (\<lambda>q. q_id q = ''q1'') (questionTable ex_db1) = Some ex_q1 \<and>
   q_questionSetId ex_q1 = a_questionSetId (ex_attempt ''a1'' 0) \<and>
   q_type ex_q1 = ''true_false'' \<and>
   (\<exists>rs s'. submitAll ''u1'' ''a1''
               [(''q1'', ''true'', ''x1'', 1), (''q1'', ''true'', ''x2'', 2),
                (''q1'', ''false'', ''x3'', 3)] ex_db1 = (rs, s') \<and>
      list_all succeeded rs \<and> length (quizAnswerTable s') = 3 \<and>
      selectAttempt s' ''a1'' ''u1'' = Some (ex_attempt ''a1'' 2)) \<and>
   (\<exists>subs rs s' a'.
      submitAll ''u1'' ''a1''
        (map (\<lambda>sub. (''q1'', fst sub, fst (snd sub), snd (snd sub))) subs) ex_db1 = (rs, s') \<and>
      list_all succeeded rs \<and>
      selectAttempt s' ''a1'' ''u1'' = Some a' \<and> a_completedAt a' = None \<and>
      a_totalQuestions a' < a_score a')"
proof -
  have h1: "selectAttempt ex_db1 ''a1'' ''u1'' = Some (ex_attempt ''a1'' 0)"
    by (simp add: selectAttempt_def ex_db1_simps ex_attempt_simps)
  have h2: "a_completedAt (ex_attempt ''a1'' 0) = None"
    by (simp add: ex_attempt_simps)
  have h3: "find (\<lambda>q. q_id q = ''q1'') (questionTable ex_db1) = Some ex_q1"
    by (simp add: ex_db1_simps ex_q_simps)
  have h4: "q_questionSetId ex_q1 = a_questionSetId (ex_attempt ''a1'' 0)"
    by (simp add: ex_attempt_simps ex_q_simps)
  have h5: "q_type ex_q1 = ''true_false''"
    by (simp add: ex_q_simps)
  note inst = repeated_submissions_inflate_score[OF h1 h2 h3 h4]
  let ?subs = "[(''true'', ''x1'', 1), (''true'', ''x2'', 2), (''false'', ''x3'', 3)]
                 :: (string \<times> ident \<times> timestamp) list"
  have pre: "distinct (map (\<lambda>sub. fst (snd sub)) ?subs) \<and>
      set (map (\<lambda>sub. fst (snd sub)) ?subs) \<inter> set (map ans_id (quizAnswerTable ex_db1)) = {}"
    by (simp add: ex_db1_simps)
  have w1: "\<exists>rs s'. submitAll ''u1'' ''a1''
               [(''q1'', ''true'', ''x1'', 1), (''q1'', ''true'', ''x2'', 2),
                (''q1'', ''false'', ''x3'', 3)] ex_db1 = (rs, s') \<and>
      list_all succeeded rs \<and> length (quizAnswerTable s') = 3 \<and>
      selectAttempt s' ''a1'' ''u1'' = Some (ex_attempt ''a1'' 2)"
    using inst[THEN conjunct1, rule_format, OF pre]
    by (simp add: ex_db1_simps ex_q_simps ex_attempt_simps ex_attempt_score_update
          numeral_3_eq_3 del: submitAll.simps)
  from h1 h2 h3 h4 h5 w1 inst[THEN conjunct2, rule_format, OF disjI2[OF h5]]
  show ?thesis by blast
qed

section \<open>What the two detail views show\<close>

lemma leftJoin_Some:
  "x \<in> set xs \<Longrightarrow> y \<in> set ys \<Longrightarrow> on x y \<Longrightarrow> (x, Some y) \<in> set (leftJoin on xs ys)"
proof -
  assume x: "x \<in> set xs" and y: "y \<in> set ys" and on: "on x y"
  then have "y \<in> set (filter (on x) ys)" by simp
  then have "(x, Some y) \<in> set (case filter (on x) ys of
                                   [] \<Rightarrow> [(x, None)]
                                 | m # ms \<Rightarrow> map (\<lambda>y. (x, Some y)) (m # ms))"
    by (cases "filter (on x) ys") auto
  with x show ?thesis unfolding leftJoin_def by auto
qed

lemma questionProjection_keys:
  "jkeys (questionProjection q) =
     [''id'', ''questionSetId'', ''type'', ''content'', ''options'', ''createdAt'']"
  "isObject (questionProjection q)"
  by (simp_all add: jkeys_def isObject_def questionProjection_def)

lemma answerProjection_fields:
  "jget ''questionId'' (answerProjection (ans, qo)) = Some (JStr (ans_questionId ans))"
  "jget ''userAnswer'' (answerProjection (ans, qo)) = Some (JStr (ans_userAnswer ans))"
  "jget ''correctAnswer'' (answerProjection (ans, qo)) =
     Some (case qo of None \<Rightarrow> JNull | Some q \<Rightarrow> JStr (q_correctAnswer q))"
  "''correctAnswer'' \<in> set (jkeys (answerProjection (ans, qo)))"
  by (simp_all add: jget_def jkeys_def answerProjection_def)

lemma getAttemptDetail_answers:
  "\<exists>resp. getAttemptDetail userId attemptId s = Inr resp \<and>
          Option.bind (jget ''data'' resp) (jget ''answers'') =
            Some (JArr (map answerProjection
                     (filter (\<lambda>r. ans_quizAttemptId (fst r) = attemptId)
                        (leftJoin (\<lambda>ans q. ans_questionId ans = q_id q)
                           (quizAnswerTable s) (questionTable s)))))"
  by (simp add: getAttemptDetail_def jget_def Let_def split: list.splits)

lemma getQuestionSetDetail_questions:
  assumes "find (\<lambda>qs. qs_id qs = questionSetId) (questionSetTable s) = Some questionSet"
  shows "\<exists>resp. getQuestionSetDetail questionSetId s = Inr resp \<and>
          Option.bind (jget ''data'' resp) (jget ''questions'') =
            Some (JArr (map questionProjection
                     (filter (\<lambda>q. q_questionSetId q = questionSetId) (questionTable s))))"
  using assms by (simp add: getQuestionSetDetail_def jget_def Let_def)

text \<open>
  C8.  For an existing question set, the set-detail response lists one object per
  question of the set, and none of these objects has a \<open>correctAnswer\<close> key.  The
  attempt-detail response lists the answer rows of the attempt joined with their
  questions; every listed object has a \<open>correctAnswer\<close> key, and for every answer row
  of the attempt whose question exists the list has an object with that row's question
  id and answer and with the question's \<open>correctAnswer\<close>.
\<close>

theorem detail_views_correctAnswer:
  "(\<forall>questionSet.
      find (\<lambda>qs. qs_id qs = questionSetId) (questionSetTable s) = Some questionSet \<longrightarrow>
      (\<exists>resp questions.
         getQuestionSetDetail questionSetId s = Inr resp \<and>
         Option.bind (jget ''data'' resp) (jget ''questions'') = Some (JArr questions) \<and>
         length questions =
           length (filter (\<lambda>q. q_questionSetId q = questionSetId) (questionTable s)) \<and>
         (\<forall>j\<in>set questions. isObject j \<and> ''correctAnswer'' \<notin> set (jkeys j)))) \<and>
   (\<exists>resp answers.
      getAttemptDetail userId attemptId s = Inr resp \<and>
      Option.bind (jget ''data'' resp) (jget ''answers'') = Some (JArr answers) \<and>
      (\<forall>j\<in>set answers. ''correctAnswer'' \<in> set (jkeys j)) \<and>
      (\<forall>ans\<in>set (quizAnswerTable s). \<forall>q.
         ans_quizAttemptId ans = attemptId \<and>
         find (\<lambda>q. q_id q = ans_questionId ans) (questionTable s) = Some q \<longrightarrow>
         (\<exists>j\<in>set answers.
            jget ''questionId'' j = Some (JStr (ans_questionId ans)) \<and>
            jget ''userAnswer'' j = Some (JStr (ans_userAnswer ans)) \<and>
            jget ''correctAnswer'' j = Some (JStr (q_correctAnswer q)))))"
proof (intro conjI allI impI)
  fix questionSet
  assume "find (\<lambda>qs. qs_id qs = questionSetId) (questionSetTable s) = Some questionSet"
  from getQuestionSetDetail_questions[OF this]
  obtain resp where r: "getQuestionSetDetail questionSetId s = Inr resp"
    and q: "Option.bind (jget ''data'' resp) (jget ''questions'') =
            Some (JArr (map questionProjection
                     (filter (\<lambda>q. q_questionSetId q = questionSetId) (questionTable s))))"
    by blast
  let ?qs = "map questionProjection
               (filter (\<lambda>q. q_questionSetId q = questionSetId) (questionTable s))"
  have "\<forall>j\<in>set ?qs. isObject j \<and> ''correctAnswer'' \<notin> set (jkeys j)"
    by (auto simp: questionProjection_keys)
  moreover have "length ?qs =
      length (filter (\<lambda>q. q_questionSetId q = questionSetId) (questionTable s))"
    by simp
  ultimately show "\<exists>resp questions.
         getQuestionSetDetail questionSetId s = Inr resp \<and>
         Option.bind (jget ''data'' resp) (jget ''questions'') = Some (JArr questions) \<and>
         length questions =
           length (filter (\<lambda>q. q_questionSetId q = questionSetId) (questionTable s)) \<and>
         (\<forall>j\<in>set questions. isObject j \<and> ''correctAnswer'' \<notin> set (jkeys j))"
    using r q by blast
next
  let ?rows = "filter (\<lambda>r. ans_quizAttemptId (fst r) = attemptId)
                 (leftJoin (\<lambda>ans q. ans_questionId ans = q_id q)
                    (quizAnswerTable s) (questionTable s))"
  let ?answers = "map answerProjection ?rows"
  from getAttemptDetail_answers[of userId attemptId s]
  obtain resp where r: "getAttemptDetail userId attemptId s = Inr resp"
    and a: "Option.bind (jget ''data'' resp) (jget ''answers'') = Some (JArr ?answers)"
    by blast
  have keys: "\<forall>j\<in>set ?answers. ''correctAnswer'' \<in> set (jkeys j)"
    by (auto simp: answerProjection_fields)
  have each: "\<forall>ans\<in>set (quizAnswerTable s). \<forall>q.
         ans_quizAttemptId ans = attemptId \<and>
         find (\<lambda>q. q_id q = ans_questionId ans) (questionTable s) = Some q \<longrightarrow>
         (\<exists>j\<in>set ?answers.
            jget ''questionId'' j = Some (JStr (ans_questionId ans)) \<and>
            jget ''userAnswer'' j = Some (JStr (ans_userAnswer ans)) \<and>
            jget ''correctAnswer'' j = Some (JStr (q_correctAnswer q)))"
  proof (intro ballI allI impI)
    fix ans q
    assume ans: "ans \<in> set (quizAnswerTable s)"
      and h: "ans_quizAttemptId ans = attemptId \<and>
              find (\<lambda>q. q_id q = ans_questionId ans) (questionTable s) = Some q"
    from h have "q_id q = ans_questionId ans \<and> q \<in> set (questionTable s)"
      using find_Some_holds[of "\<lambda>q. q_id q = ans_questionId ans" "questionTable s" q] by simp
    then have "(ans, Some q) \<in> set (leftJoin (\<lambda>ans q. ans_questionId ans = q_id q)
                    (quizAnswerTable s) (questionTable s))"
      using ans by (intro leftJoin_Some) simp_all
    then have "(ans, Some q) \<in> set ?rows" using h by simp
    then have "answerProjection (ans, Some q) \<in> answerProjection ` set ?rows"
      by (rule imageI)
    then have "answerProjection (ans, Some q) \<in> set ?answers"
      by (simp only: set_map)
    moreover have "jget ''questionId'' (answerProjection (ans, Some q)) = Some (JStr (ans_questionId ans)) \<and>
            jget ''userAnswer'' (answerProjection (ans, Some q)) = Some (JStr (ans_userAnswer ans)) \<and>
            jget ''correctAnswer'' (answerProjection (ans, Some q)) = Some (JStr (q_correctAnswer q))"
      by (simp add: answerProjection_fields)
    ultimately show "\<exists>j\<in>set ?answers.
            jget ''questionId'' j = Some (JStr (ans_questionId ans)) \<and>
            jget ''userAnswer'' j = Some (JStr (ans_userAnswer ans)) \<and>
            jget ''correctAnswer'' j = Some (JStr (q_correctAnswer q))"
      by blast
  qed
  from r a keys each
  show "\<exists>resp answers.
      getAttemptDetail userId attemptId s = Inr resp \<and>
      Option.bind (jget ''data'' resp) (jget ''answers'') = Some (JArr answers) \<and>
      (\<forall>j\<in>set answers. ''correctAnswer'' \<in> set (jkeys j)) \<and>
      (\<forall>ans\<in>set (quizAnswerTable s). \<forall>q.
         ans_quizAttemptId ans = attemptId \<and>
         find (\<lambda>q. q_id q = ans_questionId ans) (questionTable s) = Some q \<longrightarrow>
         (\<exists>j\<in>set answers.
            jget ''questionId'' j = Some (JStr (ans_questionId ans)) \<and>
            jget ''userAnswer'' j = Some (JStr (ans_userAnswer ans)) \<and>
            jget ''correctAnswer'' j = Some (JStr (q_correctAnswer q))))"
    by blast
qed


lemma ex_db5_simps:
  "questionSetTable ex_db5 = [ex_set]"
  "questionTable ex_db5 = [ex_q1, ex_q2]"
  "quizAttemptTable ex_db5 = [ex_attempt ''a1'' 1, ex_attempt ''a2'' 2]"
  "quizAnswerTable ex_db5 =
     [\<lparr> ans_id = ''x1'', ans_quizAttemptId = ''a1'', ans_questionId = ''q1'',
        ans_userAnswer = ''true'', ans_isCorrect = True, ans_answeredAt = 7 \<rparr>]"
  by (simp_all add: ex_db5_def ex_db_def)

theorem detail_views_correctAnswer_witness:
  "(\<exists>resp questions.
      getQuestionSetDetail ''set1'' ex_db5 = Inr resp \<and>
      Option.bind (jget ''data'' resp) (jget ''questions'') = Some (JArr questions) \<and>
      length questions = 2 \<and>
      list_all (\<lambda>j. isObject j \<and> ''correctAnswer'' \<notin> set (jkeys j)) questions) \<and>
   (\<exists>resp answers j.
      getAttemptDetail ''u1'' ''a1'' ex_db5 = Inr resp \<and>
      Option.bind (jget ''data'' resp) (jget ''answers'') = Some (JArr answers) \<and>
      j \<in> set answers \<and>
      jget ''questionId'' j = Some (JStr ''q1'') \<and>
      jget ''userAnswer'' j = Some (JStr ''true'') \<and>
      jget ''correctAnswer'' j = Some (JStr ''true''))"
proof -
  note inst = detail_views_correctAnswer[of "''set1''" ex_db5 "''u1''" "''a1''"]
  have hset: "find (\<lambda>qs. qs_id qs = ''set1'') (questionSetTable ex_db5) = Some ex_set"
    by (simp add: ex_db5_simps ex_set_def)
  have two: "length (filter (\<lambda>q. q_questionSetId q = ''set1'') (questionTable ex_db5)) = 2"
    by (simp add: ex_db5_simps ex_q_simps)
  from inst[THEN conjunct1, rule_format, OF hset] two
  have w1: "\<exists>resp questions.
      getQuestionSetDetail ''set1'' ex_db5 = Inr resp \<and>
      Option.bind (jget ''data'' resp) (jget ''questions'') = Some (JArr questions) \<and>
      length questions = 2 \<and>
      list_all (\<lambda>j. isObject j \<and> ''correctAnswer'' \<notin> set (jkeys j)) questions"
    by (simp only: list_all_iff)
  let ?ans = "\<lparr> ans_id = ''x1'', ans_quizAttemptId = ''a1'', ans_questionId = ''q1'',
        ans_userAnswer = ''true'', ans_isCorrect = True, ans_answeredAt = 7 \<rparr>"
  have hans: "?ans \<in> set (quizAnswerTable ex_db5)"
    by (simp add: ex_db5_simps)
  have hq: "ans_quizAttemptId ?ans = ''a1'' \<and>
      find (\<lambda>q. q_id q = ans_questionId ?ans) (questionTable ex_db5) = Some ex_q1"
    by (simp add: ex_db5_simps ex_q_simps)
  from inst[THEN conjunct2]
  obtain resp answers where r: "getAttemptDetail ''u1'' ''a1'' ex_db5 = Inr resp"
    and a: "Option.bind (jget ''data'' resp) (jget ''answers'') = Some (JArr answers)"
    and each: "\<forall>ans\<in>set (quizAnswerTable ex_db5). \<forall>q.
         ans_quizAttemptId ans = ''a1'' \<and>
         find (\<lambda>q. q_id q = ans_questionId ans) (questionTable ex_db5) = Some q \<longrightarrow>
         (\<exists>j\<in>set answers.
            jget ''questionId'' j = Some (JStr (ans_questionId ans)) \<and>
            jget ''userAnswer'' j = Some (JStr (ans_userAnswer ans)) \<and>
            jget ''correctAnswer'' j = Some (JStr (q_correctAnswer q)))"
    by blast
  from each[rule_format, OF hans hq]
  obtain j where "j \<in> set answers"
    "jget ''questionId'' j = Some (JStr ''q1'')"
    "jget ''userAnswer'' j = Some (JStr ''true'')"
    "jget ''correctAnswer'' j = Some (JStr ''true'')"
    by (auto simp: ex_q_simps)
  with r a have w2: "\<exists>resp answers j.
      getAttemptDetail ''u1'' ''a1'' ex_db5 = Inr resp \<and>
      Option.bind (jget ''data'' resp) (jget ''answers'') = Some (JArr answers) \<and>
      j \<in> set answers \<and>
      jget ''questionId'' j = Some (JStr ''q1'') \<and>
      jget ''userAnswer'' j = Some (JStr ''true'') \<and>
      jget ''correctAnswer'' j = Some (JStr ''true'')"
    by blast
  from w1 w2 show ?thesis by blast
qed

section \<open>Chat completions and history\<close>

lemma postCompletion_provider_failed:
  "postCompletion u m t None i1 i2 s =
     (Inl (HTTPException 500 ''An unexpected error occurred while processing your request.''), s)"
  by (simp add: postCompletion_def)

text \<open>
  What the handler does with a provider response: it throws its 500 and leaves the store
  as it was when the provider's time is no valid date, the session id is in use, or a
  message id is in use or both are the same; otherwise it appends one session (the
  provider's id and time) and the two messages (the user's at the server's receipt time,
  the assistant's at the provider's time), and both the stored assistant content and the
  reply are the joined strings of the choices' \<open>message\<close> objects.
\<close>

lemma postCompletion_Some:
  "postCompletion u m t (Some c) i1 i2 s =
     (if oc_created c * 1000 < - 8640000000000000 \<or> 8640000000000000 < oc_created c * 1000 \<or>
         oc_id c \<in> set (map cs_id (chatSessionTable s)) \<or>
         i1 \<in> set (map cm_id (chatMessageTable s)) \<or>
         i2 \<in> set (map cm_id (chatMessageTable s)) \<or> i2 = i1
      then (Inl (HTTPException 500
                   ''An unexpected error occurred while processing your request.''), s)
      else (Inr \<lparr> msg_role = ''assistant'',
                   msg_content = join_comma (map (\<lambda>item. ''[object Object]'') (oc_choices c)) \<rparr>,
            s\<lparr> chatSessionTable := chatSessionTable s @
                   [\<lparr> cs_id = oc_id c, cs_userId = u, cs_createdAt = oc_created c * 1000 \<rparr>],
               chatMessageTable := chatMessageTable s @
                   [\<lparr> cm_id = i1, cm_chatSessionId = oc_id c, cm_role = msg_role m,
                      cm_content = msg_content m, cm_createdAt = t \<rparr>,
                    \<lparr> cm_id = i2, cm_chatSessionId = oc_id c, cm_role = ''assistant'',
                      cm_content = join_comma (map (\<lambda>item. ''[object Object]'') (oc_choices c)),
                      cm_createdAt = oc_created c * 1000 \<rparr>] \<rparr>))"
  by (auto simp: postCompletion_def transaction_def insert_row_def newDate_def
        objectToString_def Let_def)

lemma postCompletion_err_unchanged:
  "postCompletion u m t res i1 i2 s = (Inl e, s') \<Longrightarrow> s' = s"
  by (cases res) (auto simp: postCompletion_provider_failed postCompletion_Some split: if_splits)

text \<open>
  C9.  The provider answers with one choice whose message content is
  \<open>This is the LLM response.\<close>.  The handler succeeds and appends the session and the two
  messages with the stated ids and times, but the content it stores for the assistant's
  message, and returns as the reply, is the string \<open>[object Object]\<close>, not the
  assistant's message.
\<close>

theorem postCompletion_stores_object_string:
  "map (\<lambda>item. msg_content (ch_message item)) (oc_choices ex_res) =
     [''This is the LLM response.''] \<and>
   postCompletion ''u1'' \<lparr> msg_role = ''user'', msg_content = ''Tell me a joke'' \<rparr>
      1700000060123 (Some ex_res) ''m1'' ''m2'' ex_db =
     (Inr \<lparr> msg_role = ''assistant'', msg_content = ''[object Object]'' \<rparr>,
      ex_db\<lparr> chatSessionTable :=
               [\<lparr> cs_id = ''llm-session-1'', cs_userId = ''u1'',
                  cs_createdAt = 1700000000000 \<rparr>],
             chatMessageTable :=
               [\<lparr> cm_id = ''m1'', cm_chatSessionId = ''llm-session-1'', cm_role = ''user'',
                  cm_content = ''Tell me a joke'', cm_createdAt = 1700000060123 \<rparr>,
                \<lparr> cm_id = ''m2'', cm_chatSessionId = ''llm-session-1'',
                  cm_role = ''assistant'', cm_content = ''[object Object]'',
                  cm_createdAt = 1700000000000 \<rparr>] \<rparr>)"
  by (simp add: postCompletion_def transaction_def insert_row_def newDate_def
        objectToString_def ex_res_def ex_db_def Let_def)

lemma getHistory_eq:
  "getHistory userId s =
     map historyItem
       (sort_key cm_createdAt
          (filter (\<lambda>m. cm_chatSessionId m \<in>
                          set (map cs_id (filter (\<lambda>c. cs_userId c = userId) (chatSessionTable s))))
             (chatMessageTable s)))"
proof (cases "filter (\<lambda>c. cs_userId c = userId) (chatSessionTable s) = []")
  case True
  then show ?thesis by (simp add: getHistory_def)
next
  case False
  then show ?thesis by (simp add: getHistory_def Let_def)
qed

text \<open>
  C10.  The history response has one item per message of the caller's sessions, in
  creation-time order, and the \<open>id\<close> of each item is the \<open>chatSessionId\<close> of its message:
  not the message's own id when the two differ, and the same value for all messages of
  one session.
\<close>

theorem getHistory_item_id_is_session:
  "(\<exists>messages.
      messages = sort_key cm_createdAt
          (filter (\<lambda>m. cm_chatSessionId m \<in>
                          set (map cs_id (filter (\<lambda>c. cs_userId c = userId) (chatSessionTable s))))
             (chatMessageTable s)) \<and>
      length (getHistory userId s) = length messages \<and>
      (\<forall>i<length messages.
         jget ''id'' (getHistory userId s ! i) = Some (JStr (cm_chatSessionId (messages ! i))) \<and>
         (cm_id (messages ! i) \<noteq> cm_chatSessionId (messages ! i) \<longrightarrow>
            jget ''id'' (getHistory userId s ! i) \<noteq> Some (JStr (cm_id (messages ! i)))) \<and>
         jget ''content'' (getHistory userId s ! i) = Some (JStr (cm_content (messages ! i)))) \<and>
      (\<forall>i<length messages. \<forall>j<length messages.
         cm_chatSessionId (messages ! i) = cm_chatSessionId (messages ! j) \<longrightarrow>
         jget ''id'' (getHistory userId s ! i) = jget ''id'' (getHistory userId s ! j)))"
proof -
  define messages where "messages = sort_key cm_createdAt
          (filter (\<lambda>m. cm_chatSessionId m \<in>
                          set (map cs_id (filter (\<lambda>c. cs_userId c = userId) (chatSessionTable s))))
             (chatMessageTable s))"
  have gh: "getHistory userId s = map historyItem messages"
    unfolding messages_def by (rule getHistory_eq)
  have item: "jget ''id'' (historyItem m) = Some (JStr (cm_chatSessionId m))"
    "jget ''content'' (historyItem m) = Some (JStr (cm_content m))" for m
    by (simp_all add: historyItem_def jget_def)
  have "length (getHistory userId s) = length messages \<and>
      (\<forall>i<length messages.
         jget ''id'' (getHistory userId s ! i) = Some (JStr (cm_chatSessionId (messages ! i))) \<and>
         (cm_id (messages ! i) \<noteq> cm_chatSessionId (messages ! i) \<longrightarrow>
            jget ''id'' (getHistory userId s ! i) \<noteq> Some (JStr (cm_id (messages ! i)))) \<and>
         jget ''content'' (getHistory userId s ! i) = Some (JStr (cm_content (messages ! i)))) \<and>
      (\<forall>i<length messages. \<forall>j<length messages.
         cm_chatSessionId (messages ! i) = cm_chatSessionId (messages ! j) \<longrightarrow>
         jget ''id'' (getHistory userId s ! i) = jget ''id'' (getHistory userId s ! j))"
    by (auto simp: gh item)
  with messages_def show ?thesis by blast
qed

lemma ex_db6_simps:
  "chatSessionTable ex_db6 =
       [\<lparr> cs_id = ''c1'', cs_userId = ''u1'', cs_createdAt = 10 \<rparr>,
        \<lparr> cs_id = ''c2'', cs_userId = ''u2'', cs_createdAt = 11 \<rparr>]"
  "chatMessageTable ex_db6 =
       [\<lparr> cm_id = ''m2'', cm_chatSessionId = ''c1'', cm_role = ''assistant'',
          cm_content = ''Hi there'', cm_createdAt = 10 \<rparr>,
        \<lparr> cm_id = ''m3'', cm_chatSessionId = ''c2'', cm_role = ''user'',
          cm_content = ''Other'', cm_createdAt = 8 \<rparr>,
        \<lparr> cm_id = ''m1'', cm_chatSessionId = ''c1'', cm_role = ''user'',
          cm_content = ''Hello'', cm_createdAt = 9 \<rparr>]"
  by (simp_all add: ex_db6_def ex_db_def)

theorem getHistory_item_id_is_session_witness:
  "length (getHistory ''u1'' ex_db6) = 2 \<and>
   jget ''id'' (getHistory ''u1'' ex_db6 ! 0) = Some (JStr ''c1'') \<and>
   jget ''content'' (getHistory ''u1'' ex_db6 ! 0) = Some (JStr ''Hello'') \<and>
   jget ''id'' (getHistory ''u1'' ex_db6 ! 1) = Some (JStr ''c1'') \<and>
   jget ''content'' (getHistory ''u1'' ex_db6 ! 1) = Some (JStr ''Hi there'')"
proof -
  have msgs: "sort_key cm_createdAt
          (filter (\<lambda>m. cm_chatSessionId m \<in>
                          set (map cs_id (filter (\<lambda>c. cs_userId c = ''u1'') (chatSessionTable ex_db6))))
             (chatMessageTable ex_db6)) =
       [\<lparr> cm_id = ''m1'', cm_chatSessionId = ''c1'', cm_role = ''user'',
          cm_content = ''Hello'', cm_createdAt = 9 \<rparr>,
        \<lparr> cm_id = ''m2'', cm_chatSessionId = ''c1'', cm_role = ''assistant'',
          cm_content = ''Hi there'', cm_createdAt = 10 \<rparr>]"
    by (simp add: ex_db6_simps)
  from getHistory_item_id_is_session[of "''u1''" ex_db6]
  have len: "length (getHistory ''u1'' ex_db6) = 2"
    and items: "\<forall>i<2.
         jget ''id'' (getHistory ''u1'' ex_db6 ! i) =
           Some (JStr (cm_chatSessionId
             ([\<lparr> cm_id = ''m1'', cm_chatSessionId = ''c1'', cm_role = ''user'',
                 cm_content = ''Hello'', cm_createdAt = 9 \<rparr>,
               \<lparr> cm_id = ''m2'', cm_chatSessionId = ''c1'', cm_role = ''assistant'',
                 cm_content = ''Hi there'', cm_createdAt = 10 \<rparr>] ! i))) \<and>
         jget ''content'' (getHistory ''u1'' ex_db6 ! i) =
           Some (JStr (cm_content
             ([\<lparr> cm_id = ''m1'', cm_chatSessionId = ''c1'', cm_role = ''user'',
                 cm_content = ''Hello'', cm_createdAt = 9 \<rparr>,
               \<lparr> cm_id = ''m2'', cm_chatSessionId = ''c1'', cm_role = ''assistant'',
                 cm_content = ''Hi there'', cm_createdAt = 10 \<rparr>] ! i)))"
    unfolding msgs by auto
  from items[rule_format, of 0] items[rule_format, of 1] len
  show ?thesis by simp
qed

end
